theory Spec2Isabelle
  imports Complex_Main "HOL-Library.Word"
begin

section \<open>Double-precision values\<close>

text \<open>
  The metrics of \<^verbatim>\<open>error_stat.cc\<close> are C++ \<^verbatim>\<open>double\<close>s. A double is modelled as a
  finite real, one of the two infinities, or NaN. The special values follow IEEE 754:
  NaN is absorbing, \<open>inf - inf\<close>, \<open>0 * inf\<close>, \<open>0 / 0\<close> and \<open>inf / inf\<close> are NaN, a
  non-zero value divided by zero is an infinity, every comparison with NaN is false, and
  a finite result at or beyond the overflow threshold becomes an infinity.
  Two things are left out: the rounding of a finite result of double precision to 53
  bits of mantissa (it is the exact real), and the sign of zero (every zero is \<open>+0\<close>; the only
  divisors of the code are an element count and a difference \<open>max - min\<close>, whose zero
  is \<open>+0\<close> under round-to-nearest). The properties proved below do not rest on exact
  finite arithmetic: they are about the shape of a formula, about results that are zero,
  non-negative, infinite or NaN, which rounding to nearest keeps, and about small dyadic
  values such as 0.25, which are represented exactly.
\<close>

datatype double = Fin real | PInf | MInf | NaN

text \<open>Round-to-nearest turns a result into an infinity from \<open>2^1024 - 2^970\<close> on for
  a double, and from \<open>2^128 - 2^103\<close> on for a float.\<close>

definition dbl_overflow :: real where
  "dbl_overflow = 2 ^ 1024 - 2 ^ 970"

definition flt_overflow :: real where
  "flt_overflow = 2 ^ 128 - 2 ^ 103"

definition round_to :: "real \<Rightarrow> real \<Rightarrow> double" where
  "round_to thr r = (if thr \<le> r then PInf else if r \<le> - thr then MInf else Fin r)"

fun dneg :: "double \<Rightarrow> double" where
  "dneg (Fin r) = Fin (- r)"
| "dneg PInf = MInf"
| "dneg MInf = PInf"
| "dneg NaN = NaN"

text \<open>The four operations, for a format given by the function \<open>rnd\<close> that takes the
  exact result of two finite operands to the value of the format.\<close>

fun fadd :: "(real \<Rightarrow> double) \<Rightarrow> double \<Rightarrow> double \<Rightarrow> double" where
  "fadd rnd NaN b = NaN"
| "fadd rnd a NaN = NaN"
| "fadd rnd PInf MInf = NaN"
| "fadd rnd MInf PInf = NaN"
| "fadd rnd PInf b = PInf"
| "fadd rnd MInf b = MInf"
| "fadd rnd (Fin a) PInf = PInf"
| "fadd rnd (Fin a) MInf = MInf"
| "fadd rnd (Fin a) (Fin b) = rnd (a + b)"

definition fsub :: "(real \<Rightarrow> double) \<Rightarrow> double \<Rightarrow> double \<Rightarrow> double" where
  "fsub rnd a b = fadd rnd a (dneg b)"

text \<open>The sign of an infinity times or divided by a finite value; a zero counts as
  \<open>+0\<close>.\<close>

definition signed_inf :: "bool \<Rightarrow> double" where
  "signed_inf negative = (if negative then MInf else PInf)"

fun fmul :: "(real \<Rightarrow> double) \<Rightarrow> double \<Rightarrow> double \<Rightarrow> double" where
  "fmul rnd NaN b = NaN"
| "fmul rnd a NaN = NaN"
| "fmul rnd PInf PInf = PInf"
| "fmul rnd PInf MInf = MInf"
| "fmul rnd MInf PInf = MInf"
| "fmul rnd MInf MInf = PInf"
| "fmul rnd PInf (Fin b) = (if b = 0 then NaN else signed_inf (b < 0))"
| "fmul rnd MInf (Fin b) = (if b = 0 then NaN else signed_inf (0 < b))"
| "fmul rnd (Fin a) PInf = (if a = 0 then NaN else signed_inf (a < 0))"
| "fmul rnd (Fin a) MInf = (if a = 0 then NaN else signed_inf (0 < a))"
| "fmul rnd (Fin a) (Fin b) = rnd (a * b)"

fun fdiv :: "(real \<Rightarrow> double) \<Rightarrow> double \<Rightarrow> double \<Rightarrow> double" where
  "fdiv rnd NaN b = NaN"
| "fdiv rnd a NaN = NaN"
| "fdiv rnd PInf (Fin b) = signed_inf (b < 0)"
| "fdiv rnd MInf (Fin b) = signed_inf (\<not> b < 0)"
| "fdiv rnd PInf b = NaN"
| "fdiv rnd MInf b = NaN"
| "fdiv rnd (Fin a) PInf = Fin 0"
| "fdiv rnd (Fin a) MInf = Fin 0"
| "fdiv rnd (Fin a) (Fin b) =
     (if b = 0 then (if a = 0 then NaN else signed_inf (a < 0))
      else rnd (a / b))"

text \<open>Double precision: the exact result, or an infinity.\<close>

definition dadd :: "double \<Rightarrow> double \<Rightarrow> double" where
  "dadd = fadd (round_to dbl_overflow)"

definition dsub :: "double \<Rightarrow> double \<Rightarrow> double" where
  "dsub = fsub (round_to dbl_overflow)"

definition dmul :: "double \<Rightarrow> double \<Rightarrow> double" where
  "dmul = fmul (round_to dbl_overflow)"

definition ddiv :: "double \<Rightarrow> double \<Rightarrow> double" where
  "ddiv = fdiv (round_to dbl_overflow)"

text \<open>
  Single precision. A \<^verbatim>\<open>float\<close> holds 24 bits of mantissa, so the subtraction and the
  product of two floats lose digits that the later arithmetic in double precision would
  have kept; here the rounding is modelled. \<open>round_even\<close> rounds to the nearest
  integer, a tie to the even one. The spacing of the floats around \<open>r\<close> is
  \<open>2 ^ ulp_exponent r\<close>: \<open>2^(e - 23)\<close> for \<open>2^e \<le> |r| < 2^(e + 1)\<close>, and \<open>2^(-149)\<close>
  for the subnormal numbers below \<open>2^(-126)\<close>.
\<close>

definition round_even :: "real \<Rightarrow> int" where
  "round_even q =
     (let f = \<lfloor>q\<rfloor>; d = q - of_int f
      in if d < 1 / 2 then f else if 1 / 2 < d then f + 1 else if even f then f else f + 1)"

definition ulp_exponent :: "real \<Rightarrow> int" where
  "ulp_exponent r = max (\<lfloor>log 2 \<bar>r\<bar>\<rfloor> - 23) (- 149)"

definition round_single :: "real \<Rightarrow> real" where
  "round_single r =
     (if r = 0 then 0
      else of_int (round_even (r / 2 powi ulp_exponent r)) * 2 powi ulp_exponent r)"

definition to_single :: "real \<Rightarrow> double" where
  "to_single r =
     (if flt_overflow \<le> r then PInf else if r \<le> - flt_overflow then MInf
      else Fin (round_single r))"

text \<open>A double that is the value of a \<^verbatim>\<open>float\<close>: an infinity, NaN, or a finite value
  that single precision represents.\<close>

fun is_single :: "double \<Rightarrow> bool" where
  "is_single (Fin r) = (to_single r = Fin r)"
| "is_single d = True"

fun dabs :: "double \<Rightarrow> double" where
  "dabs (Fin r) = Fin \<bar>r\<bar>"
| "dabs PInf = PInf"
| "dabs MInf = PInf"
| "dabs NaN = NaN"

fun dsqrt :: "double \<Rightarrow> double" where
  "dsqrt (Fin r) = (if r < 0 then NaN else Fin (sqrt r))"
| "dsqrt PInf = PInf"
| "dsqrt MInf = NaN"
| "dsqrt NaN = NaN"

fun dlog10 :: "double \<Rightarrow> double" where
  "dlog10 (Fin r) = (if r < 0 then NaN else if r = 0 then MInf else Fin (log 10 r))"
| "dlog10 PInf = PInf"
| "dlog10 MInf = NaN"
| "dlog10 NaN = NaN"

fun dless :: "double \<Rightarrow> double \<Rightarrow> bool" where
  "dless NaN b = False"
| "dless a NaN = False"
| "dless (Fin a) (Fin b) = (a < b)"
| "dless (Fin a) PInf = True"
| "dless (Fin a) MInf = False"
| "dless PInf b = False"
| "dless MInf MInf = False"
| "dless MInf b = True"

text \<open>\<open>a >= b\<close> on doubles: false as soon as one side is NaN.\<close>

definition dge :: "double \<Rightarrow> double \<Rightarrow> bool" where
  "dge a b = (a \<noteq> NaN \<and> b \<noteq> NaN \<and> \<not> dless a b)"

fun is_finite :: "double \<Rightarrow> bool" where
  "is_finite (Fin r) = True"
| "is_finite PInf = False"
| "is_finite MInf = False"
| "is_finite NaN = False"

text \<open>The real number a finite double holds.\<close>

fun fin_value :: "double \<Rightarrow> real" where
  "fin_value (Fin r) = r"
| "fin_value d = 0"

text \<open>\<^verbatim>\<open>std::min(a, b)\<close> is \<^verbatim>\<open>(b < a) ? b : a\<close> and \<^verbatim>\<open>std::max(a, b)\<close> is
  \<^verbatim>\<open>(a < b) ? b : a\<close>; the order of the arguments matters once NaN is around.\<close>

definition std_min :: "('a \<Rightarrow> 'a \<Rightarrow> bool) \<Rightarrow> 'a \<Rightarrow> 'a \<Rightarrow> 'a" where
  "std_min lt a b = (if lt b a then b else a)"

definition std_max :: "('a \<Rightarrow> 'a \<Rightarrow> bool) \<Rightarrow> 'a \<Rightarrow> 'a \<Rightarrow> 'a" where
  "std_max lt a b = (if lt a b then b else a)"

section \<open>The error statistics: \<^verbatim>\<open>compute_metrics\<close>\<close>

record error_metrics =
  psnr :: double
  mse :: double
  rmse :: double
  value_range :: double
  min_error :: double
  max_error :: double
  min_rel_error :: double
  max_rel_error :: double
  average_difference :: double
  average_error :: double
  difference_range :: double
  error_range :: double
  value_min :: double
  value_max :: double
  value_std :: double
  value_mean :: double

text \<open>
  \<^verbatim>\<open>compute_metrics::operator()\<close> is a template over the iterators' \<^verbatim>\<open>value_type\<close>.
  What it needs of the element type \<open>'e\<close> is collected in a record: the subtraction
  and the product of two elements, whose result has the promoted type \<open>'p\<close> (the type
  of \<^verbatim>\<open>auto diff = *input_begin - *input2_begin\<close>: \<^verbatim>\<open>int\<close> for the 8- and 16-bit
  integers, the element type itself otherwise), the subtraction of two promoted values,
  \<^verbatim>\<open>operator<\<close> on both types, and the conversions to \<^verbatim>\<open>double\<close>.
\<close>

record ('e, 'p) arith =
  minus_e :: "'e \<Rightarrow> 'e \<Rightarrow> 'p"
  times_e :: "'e \<Rightarrow> 'e \<Rightarrow> 'p"
  minus_p :: "'p \<Rightarrow> 'p \<Rightarrow> 'p"
  less_e :: "'e \<Rightarrow> 'e \<Rightarrow> bool"
  less_p :: "'p \<Rightarrow> 'p \<Rightarrow> bool"
  double_e :: "'e \<Rightarrow> double"
  double_p :: "'p \<Rightarrow> double"

text \<open>The local variables of the function (lines 36 to 47). \<open>sum_acc\<close>,
  \<open>value_min_acc\<close> and \<open>value_max_acc\<close> are the source's \<^verbatim>\<open>sum\<close>, \<^verbatim>\<open>value_min\<close> and
  \<^verbatim>\<open>value_max\<close>; \<^verbatim>\<open>num_elements\<close> is a \<^verbatim>\<open>size_t\<close> that counts the elements of a
  buffer in memory, so it never wraps.\<close>

record ('e, 'p) locals =
  sum_of_squared_error :: double
  sum_of_difference :: double
  sum_of_error :: double
  sum_of_values_squared :: double
  sum_acc :: double
  num_elements :: nat
  value_min_acc :: 'e
  value_max_acc :: 'e
  diff_min :: 'p
  diff_max :: 'p
  error_min :: double
  error_max :: double

definition init_locals :: "('e, 'p) arith \<Rightarrow> 'e \<Rightarrow> 'e \<Rightarrow> ('e, 'p) locals" where
  "init_locals A x0 y0 =
     \<lparr> sum_of_squared_error = Fin 0,
       sum_of_difference = Fin 0,
       sum_of_error = Fin 0,
       sum_of_values_squared = Fin 0,
       sum_acc = Fin 0,
       num_elements = 0,
       value_min_acc = x0,
       value_max_acc = x0,
       diff_min = minus_e A x0 y0,
       diff_max = minus_e A x0 y0,
       error_min = dabs (dsub (double_e A x0) (double_e A y0)),
       error_max = dabs (double_p A (minus_e A x0 y0)) \<rparr>"

text \<open>One turn of the \<^verbatim>\<open>while\<close> loop (lines 49 to 64) on the elements \<open>x\<close> and \<open>y\<close>
  the two iterators point at.\<close>

definition loop_body :: "('e, 'p) arith \<Rightarrow> ('e, 'p) locals \<Rightarrow> 'e \<Rightarrow> 'e \<Rightarrow> ('e, 'p) locals" where
  "loop_body A st x y =
     (let diff = minus_e A x y;
          err = dabs (double_p A diff);
          squared_error = dmul err err
      in \<lparr> sum_of_squared_error = dadd (sum_of_squared_error st) squared_error,
           sum_of_difference = dadd (sum_of_difference st) (double_p A diff),
           sum_of_error = dadd (sum_of_error st) err,
           sum_of_values_squared = dadd (sum_of_values_squared st) (double_p A (times_e A x x)),
           sum_acc = dadd (sum_acc st) (double_e A x),
           num_elements = Suc (num_elements st),
           value_min_acc = std_min (less_e A) (value_min_acc st) x,
           value_max_acc = std_max (less_e A) (value_max_acc st) x,
           diff_min = std_min (less_p A) diff (diff_min st),
           diff_max = std_max (less_p A) diff (diff_max st),
           error_min = std_min dless err (error_min st),
           error_max = std_max dless err (error_max st) \<rparr>)"

text \<open>The loop runs until the first iterator reaches \<^verbatim>\<open>input_end\<close>. The second
  range has no end of its own: when it is the shorter one the loop reads past its end,
  which is undefined behaviour (\<open>None\<close>).\<close>

fun while_loop :: "('e, 'p) arith \<Rightarrow> ('e, 'p) locals \<Rightarrow> 'e list \<Rightarrow> 'e list \<Rightarrow> ('e, 'p) locals option" where
  "while_loop A st [] ys = Some st"
| "while_loop A st (x # xs) [] = None"
| "while_loop A st (x # xs) (y # ys) = while_loop A (loop_body A st x y) xs ys"

text \<open>Lines 69 to 91: the record that is returned.\<close>

definition finish :: "('e, 'p) arith \<Rightarrow> ('e, 'p) locals \<Rightarrow> error_metrics" where
  "finish A st =
     (let n = Fin (real (num_elements st));
          m_mse = ddiv (sum_of_squared_error st) n;
          m_value_range = double_p A (minus_e A (value_max_acc st) (value_min_acc st))
      in \<lparr> psnr = dmul (Fin (- 20)) (dlog10 (ddiv (dsqrt m_mse) m_value_range)),
           mse = m_mse,
           rmse = dsqrt m_mse,
           value_range = m_value_range,
           min_error = error_min st,
           max_error = error_max st,
           min_rel_error = ddiv (error_min st) m_value_range,
           max_rel_error = ddiv (error_max st) m_value_range,
           average_difference = ddiv (sum_of_difference st) n,
           average_error = ddiv (sum_of_error st) n,
           difference_range = double_p A (minus_p A (diff_max st) (diff_min st)),
           error_range = dsub (error_max st) (error_min st),
           value_min = double_e A (value_min_acc st),
           value_max = double_e A (value_max_acc st),
           value_std = dsub (sum_of_values_squared st)
                         (ddiv (dmul (sum_acc st) (sum_acc st)) n),
           value_mean = ddiv (sum_acc st) n \<rparr>)"

text \<open>The whole function. Lines 42 to 47 dereference both iterators before the loop
  tests them, so an empty range is undefined behaviour as well.\<close>

definition compute_metrics :: "('e, 'p) arith \<Rightarrow> 'e list \<Rightarrow> 'e list \<Rightarrow> error_metrics option" where
  "compute_metrics A xs ys =
     (case (xs, ys) of
        (x0 # _, y0 # _) \<Rightarrow> map_option (finish A) (while_loop A (init_locals A x0 y0) xs ys)
      | _ \<Rightarrow> None)"

subsection \<open>The element types\<close>

text \<open>\<^verbatim>\<open>double\<close>: every operation is the double's own.\<close>

definition arith_double :: "(double, double) arith" where
  "arith_double =
     \<lparr> minus_e = dsub, times_e = dmul, minus_p = dsub,
       less_e = dless, less_p = dless, double_e = (\<lambda>x. x), double_p = (\<lambda>x. x) \<rparr>"

text \<open>\<^verbatim>\<open>float\<close>: the elements are subtracted and multiplied in single precision; the
  conversion to \<^verbatim>\<open>double\<close> is exact. The elements of a buffer of floats are values
  with \<open>is_single\<close>.\<close>

definition arith_float :: "(double, double) arith" where
  "arith_float =
     \<lparr> minus_e = fsub to_single, times_e = fmul to_single, minus_p = fsub to_single,
       less_e = dless, less_p = dless, double_e = (\<lambda>x. x), double_p = (\<lambda>x. x) \<rparr>"

text \<open>\<^verbatim>\<open>uint32_t\<close> and \<^verbatim>\<open>uint64_t\<close>: no promotion takes place, so the difference and
  the product of two elements are unsigned and wrap around. They are the instances at
  \<open>32 word\<close> and \<open>64 word\<close> of the following. The conversion of a \<^verbatim>\<open>uint32_t\<close> to
  \<^verbatim>\<open>double\<close> is exact; that of a \<^verbatim>\<open>uint64_t\<close> is exact below \<open>2^53\<close> and rounds to 53
  bits beyond, which is left out as it is for the arithmetic of doubles.\<close>

definition arith_unsigned :: "('a::len word, 'a word) arith" where
  "arith_unsigned =
     \<lparr> minus_e = (\<lambda>a b. a - b), times_e = (\<lambda>a b. a * b), minus_p = (\<lambda>a b. a - b),
       less_e = (\<lambda>a b. a < b), less_p = (\<lambda>a b. a < b),
       double_e = (\<lambda>a. Fin (real (unat a))), double_p = (\<lambda>a. Fin (real (unat a))) \<rparr>"

text \<open>\<^verbatim>\<open>int8_t\<close> and \<^verbatim>\<open>int16_t\<close>: the operands are promoted to \<^verbatim>\<open>int\<close>, and no
  difference or product of two such values, nor a difference of two such differences,
  leaves the range of a 32-bit \<^verbatim>\<open>int\<close>. They are the instances at \<open>8 word\<close> and
  \<open>16 word\<close> of:\<close>

definition arith_small_signed :: "('a::len word, int) arith" where
  "arith_small_signed =
     \<lparr> minus_e = (\<lambda>a b. sint a - sint b), times_e = (\<lambda>a b. sint a * sint b),
       minus_p = (\<lambda>a b. a - b),
       less_e = (\<lambda>a b. sint a < sint b), less_p = (\<lambda>a b. a < b),
       double_e = (\<lambda>a. Fin (real_of_int (sint a))), double_p = (\<lambda>a. Fin (real_of_int a)) \<rparr>"

text \<open>\<^verbatim>\<open>uint8_t\<close> (and the byte type, an \<^verbatim>\<open>unsigned char\<close>): promoted to \<^verbatim>\<open>int\<close> as
  well, at \<open>8 word\<close>.\<close>

definition arith_small_unsigned :: "('a::len word, int) arith" where
  "arith_small_unsigned =
     \<lparr> minus_e = (\<lambda>a b. uint a - uint b), times_e = (\<lambda>a b. uint a * uint b),
       minus_p = (\<lambda>a b. a - b),
       less_e = (\<lambda>a b. a < b), less_p = (\<lambda>a b. a < b),
       double_e = (\<lambda>a. Fin (real_of_int (uint a))), double_p = (\<lambda>a. Fin (real_of_int a)) \<rparr>"

text \<open>The instantiations at \<^verbatim>\<open>int32_t\<close>, \<^verbatim>\<open>int64_t\<close> and \<^verbatim>\<open>uint16_t\<close> have no
  definition of their own: their differences and products are signed (the product of two
  \<^verbatim>\<open>uint16_t\<close> is an \<^verbatim>\<open>int\<close>) and can overflow, which C++ leaves undefined. A run in
  which no signed operation overflows computes what \<open>arith_small_signed\<close> at
  \<open>32 word\<close> and \<open>64 word\<close> and \<open>arith_small_unsigned\<close> at \<open>16 word\<close> compute; about
  the other runs nothing can be said.\<close>

section \<open>The options store\<close>

text \<open>
  Modelled from the spec: \<^verbatim>\<open>pressio_options\<close> (declared in \<^verbatim>\<open>libpressio_ext/cpp/options.h\<close>,
  which is not among the sources) is the generic key-value store the plugins consume
  through "get/set named options". An entry has a type and may lack a value
  (\<^verbatim>\<open>set_type\<close>); \<^verbatim>\<open>set\<close> stores a value under a name, replacing what was there;
  \<^verbatim>\<open>clear\<close> removes every entry; \<^verbatim>\<open>get\<close> reads a value of the asked type into a
  variable and reports whether the key holds one. Only the three types these plugins
  store are modelled.
\<close>

datatype pressio_option =
    option_double "double option"
  | option_int32 "int option"
  | option_charptr "string option"

type_synonym pressio_options = "string \<rightharpoonup> pressio_option"

datatype pressio_option_type =
    pressio_option_double_type
  | pressio_option_int32_type
  | pressio_option_charptr_type

fun untyped :: "pressio_option_type \<Rightarrow> pressio_option" where
  "untyped pressio_option_double_type = option_double None"
| "untyped pressio_option_int32_type = option_int32 None"
| "untyped pressio_option_charptr_type = option_charptr None"

definition options_set :: "pressio_options \<Rightarrow> string \<Rightarrow> pressio_option \<Rightarrow> pressio_options" where
  "options_set opt name v = opt(name \<mapsto> v)"

definition options_set_type :: "pressio_options \<Rightarrow> string \<Rightarrow> pressio_option_type \<Rightarrow> pressio_options" where
  "options_set_type opt name t = opt(name \<mapsto> untyped t)"

definition options_clear :: "pressio_options \<Rightarrow> pressio_options" where
  "options_clear opt = Map.empty"

datatype pressio_options_key_status =
    pressio_options_key_set
  | pressio_options_key_exists
  | pressio_options_key_does_not_exist

text \<open>\<^verbatim>\<open>opt.get(name, &variable)\<close> for a string variable: the status, and the variable
  afterwards.\<close>

definition options_get_string ::
    "pressio_options \<Rightarrow> string \<Rightarrow> string \<Rightarrow> pressio_options_key_status \<times> string" where
  "options_get_string opt name variable =
     (case opt name of
        None \<Rightarrow> (pressio_options_key_does_not_exist, variable)
      | Some (option_charptr (Some s)) \<Rightarrow> (pressio_options_key_set, s)
      | Some _ \<Rightarrow> (pressio_options_key_exists, variable))"

section \<open>The error statistics plugin\<close>

text \<open>
  The state of an \<^verbatim>\<open>error_stat_plugin\<close>: the clone of the input taken by
  \<^verbatim>\<open>begin_compress\<close>, and the optional metrics, empty in a new plugin.
  \<^verbatim>\<open>pressio_data\<close> and \<^verbatim>\<open>pressio_data_for_each\<close> are declared in
  \<^verbatim>\<open>libpressio_ext/cpp/data.h\<close>, which is not among the sources: the buffer type is a
  type variable \<open>'d\<close>, and the dispatch of \<^verbatim>\<open>compute_metrics\<close> on the element type
  of two buffers is the parameter \<open>each\<close>, which yields \<open>None\<close> where
  \<^verbatim>\<open>compute_metrics\<close> is undefined.
\<close>

record 'd error_stat_plugin =
  stat_input_data :: 'd
  err_metrics :: "error_metrics option"

definition error_stat_new :: "'d \<Rightarrow> 'd error_stat_plugin" where
  "error_stat_new empty_data = \<lparr> stat_input_data = empty_data, err_metrics = None \<rparr>"

definition stat_begin_compress :: "'d \<Rightarrow> 'd error_stat_plugin \<Rightarrow> 'd error_stat_plugin" where
  "stat_begin_compress input st = st\<lparr> stat_input_data := input \<rparr>"

definition stat_end_decompress ::
    "('d \<Rightarrow> 'd \<Rightarrow> error_metrics option) \<Rightarrow> 'd \<Rightarrow> 'd error_stat_plugin \<Rightarrow> 'd error_stat_plugin option" where
  "stat_end_decompress each output st =
     map_option (\<lambda>m. st\<lparr> err_metrics := Some m \<rparr>) (each (stat_input_data st) output)"

definition stat_get_metrics_results :: "'d error_stat_plugin \<Rightarrow> pressio_options" where
  "stat_get_metrics_results st =
     (case err_metrics st of
        Some m \<Rightarrow>
          (let opt = Map.empty;
               opt = options_set opt ''error_stat:psnr'' (option_double (Some (psnr m)));
               opt = options_set opt ''error_stat:mse'' (option_double (Some (mse m)));
               opt = options_set opt ''error_stat:rmse'' (option_double (Some (rmse m)));
               opt = options_set opt ''error_stat:value_mean'' (option_double (Some (value_mean m)));
               opt = options_set opt ''error_stat:value_std'' (option_double (Some (value_std m)));
               opt = options_set opt ''error_stat:value_min'' (option_double (Some (value_min m)));
               opt = options_set opt ''error_stat:value_max'' (option_double (Some (value_max m)));
               opt = options_set opt ''error_stat:value_range'' (option_double (Some (value_range m)));
               opt = options_set opt ''error_stat:min_error'' (option_double (Some (min_error m)));
               opt = options_set opt ''error_stat:max_error'' (option_double (Some (max_error m)));
               opt = options_set opt ''error_stat:min_rel_error'' (option_double (Some (min_rel_error m)));
               opt = options_set opt ''error_stat:max_rel_error'' (option_double (Some (max_rel_error m)));
               opt = options_set opt ''error_stat:average_difference'' (option_double (Some (average_difference m)));
               opt = options_set opt ''error_stat:average_error'' (option_double (Some (average_error m)));
               opt = options_set opt ''error_stat:difference_range'' (option_double (Some (difference_range m)));
               opt = options_set opt ''error_stat:error_range'' (option_double (Some (error_range m)))
           in opt)
      | None \<Rightarrow>
          (let opt = Map.empty;
               opt = options_set_type opt ''error_stat:psnr'' pressio_option_double_type;
               opt = options_set_type opt ''error_stat:mse'' pressio_option_double_type;
               opt = options_set_type opt ''error_stat:rmse'' pressio_option_double_type;
               opt = options_set_type opt ''error_stat:value_mean'' pressio_option_double_type;
               opt = options_set_type opt ''error_stat:value_std'' pressio_option_double_type;
               opt = options_set_type opt ''error_stat:value_min'' pressio_option_double_type;
               opt = options_set_type opt ''error_stat:value_max'' pressio_option_double_type;
               opt = options_set_type opt ''error_stat:value_range'' pressio_option_double_type;
               opt = options_set_type opt ''error_stat:min_error'' pressio_option_double_type;
               opt = options_set_type opt ''error_stat:max_error'' pressio_option_double_type;
               opt = options_set_type opt ''error_stat:min_rel_error'' pressio_option_double_type;
               opt = options_set_type opt ''error_stat:max_rel_error'' pressio_option_double_type;
               opt = options_set_type opt ''error_stat:average_difference'' pressio_option_double_type;
               opt = options_set_type opt ''error_stat:average_error'' pressio_option_double_type;
               opt = options_set_type opt ''error_stat:difference_range'' pressio_option_double_type;
               opt = options_set_type opt ''error_stat:error_range'' pressio_option_double_type
           in opt))"

text \<open>The calls a metrics session makes on the plugin, and a session run from a state.
  A session stops (\<open>None\<close>) where \<^verbatim>\<open>end_decompress\<close> is undefined.\<close>

datatype 'd stat_call = Begin_compress 'd | End_decompress 'd

fun stat_session ::
    "('d \<Rightarrow> 'd \<Rightarrow> error_metrics option) \<Rightarrow> 'd error_stat_plugin \<Rightarrow> 'd stat_call list
       \<Rightarrow> 'd error_stat_plugin option" where
  "stat_session each st [] = Some st"
| "stat_session each st (Begin_compress d # cs) = stat_session each (stat_begin_compress d st) cs"
| "stat_session each st (End_decompress d # cs) =
     (case stat_end_decompress each d st of
        None \<Rightarrow> None
      | Some st' \<Rightarrow> stat_session each st' cs)"

text \<open>The sixteen names of the specification's result record, under the plugin's
  prefix.\<close>

definition error_stat_keys :: "string list" where
  "error_stat_keys =
     [''error_stat:psnr'', ''error_stat:mse'', ''error_stat:rmse'', ''error_stat:value_mean'',
      ''error_stat:value_std'', ''error_stat:value_min'', ''error_stat:value_max'',
      ''error_stat:value_range'', ''error_stat:min_error'', ''error_stat:max_error'',
      ''error_stat:min_rel_error'', ''error_stat:max_rel_error'',
      ''error_stat:average_difference'', ''error_stat:average_error'',
      ''error_stat:difference_range'', ''error_stat:error_range'']"

section \<open>The external metrics plugin\<close>

subsection \<open>Strings and the standard library\<close>

datatype exception = invalid_argument | out_of_range

text \<open>\<^verbatim>\<open>std::getline(stream, line)\<close> on the text a stream still holds: it fails on an
  exhausted stream, and otherwise takes the characters up to the first newline, which it
  drops. The result is the line and what the stream holds afterwards.\<close>

definition getline :: "string \<Rightarrow> (string \<times> string) option" where
  "getline stream =
     (if stream = [] then None
      else Some (takeWhile (\<lambda>c. c \<noteq> CHR 0x0A) stream,
                 drop 1 (dropWhile (\<lambda>c. c \<noteq> CHR 0x0A) stream)))"

text \<open>\<^verbatim>\<open>line.find('=')\<close>: the position of the first \<open>=\<close>, or \<open>None\<close> for
  \<^verbatim>\<open>std::string::npos\<close>.\<close>

definition find_eq :: "string \<Rightarrow> nat option" where
  "find_eq line =
     (if CHR ''='' \<in> set line then Some (length (takeWhile (\<lambda>c. c \<noteq> CHR ''='') line)) else None)"

text \<open>\<^verbatim>\<open>std::stoull(s)\<close>, that is \<^verbatim>\<open>strtoull\<close> in base 10: leading white space is
  skipped, a sign may follow, then the longest run of digits is read and the rest of the
  string is ignored. No digit is \<^verbatim>\<open>std::invalid_argument\<close>; a value beyond
  \<open>2^64 - 1\<close> is \<^verbatim>\<open>std::out_of_range\<close>; a minus sign negates the value as an unsigned
  64-bit number.\<close>

definition isspace :: "char \<Rightarrow> bool" where
  "isspace c = (c \<in> set [CHR '' '', CHR 0x09, CHR 0x0A, CHR 0x0B, CHR 0x0C, CHR 0x0D])"

definition isdigit :: "char \<Rightarrow> bool" where
  "isdigit c = (c \<in> set ''0123456789'')"

definition digit_value :: "char \<Rightarrow> nat" where
  "digit_value c = of_char c - 48"

definition decimal_value :: "string \<Rightarrow> nat" where
  "decimal_value ds = foldl (\<lambda>n c. 10 * n + digit_value c) 0 ds"

definition stoull :: "string \<Rightarrow> exception + nat" where
  "stoull s =
     (let s1 = dropWhile isspace s;
          negative = (s1 \<noteq> [] \<and> hd s1 = CHR ''-'');
          s2 = (if s1 \<noteq> [] \<and> (hd s1 = CHR ''-'' \<or> hd s1 = CHR ''+'') then tl s1 else s1);
          ds = takeWhile isdigit s2;
          n = decimal_value ds
      in if ds = [] then Inl invalid_argument
         else if 2 ^ 64 \<le> n then Inl out_of_range
         else Inr (if negative then (2 ^ 64 - n) mod 2 ^ 64 else n))"

text \<open>\<^verbatim>\<open>std::stod\<close> is the C library's conversion of decimal (or hexadecimal) text to
  the nearest double. The model takes it as a parameter \<open>stod\<close>, of this type; \<open>Inl\<close> is
  the exception it throws.\<close>

type_synonym stod_fn = "string \<Rightarrow> exception + double"

text \<open>For evaluating examples: \<^verbatim>\<open>std::stod\<close> restricted to a table of strings with
  their values (it throws elsewhere).\<close>

definition stod_table :: "(string \<times> real) list \<Rightarrow> stod_fn" where
  "stod_table tab s = (case map_of tab s of None \<Rightarrow> Inl invalid_argument | Some r \<Rightarrow> Inr (Fin r))"

text \<open>\<^verbatim>\<open>ss << i\<close> for a \<^verbatim>\<open>size_t\<close>: its decimal digits.\<close>

function put_size :: "nat \<Rightarrow> string" where
  "put_size n =
     (if n < 10 then [''0123456789'' ! n]
      else put_size (n div 10) @ [''0123456789'' ! (n mod 10)])"
  by pat_completeness auto
termination
  by (relation "measure (\<lambda>n. n)") auto

declare put_size.simps [simp del]

subsection \<open>Data, process results and the plugin's state\<close>

text \<open>The element types of \<^verbatim>\<open>pressio_data\<close>, as the \<^verbatim>\<open>switch\<close> of
  \<^verbatim>\<open>build_command\<close> lists them.\<close>

datatype pressio_dtype =
    pressio_float_dtype
  | pressio_double_dtype
  | pressio_int8_dtype
  | pressio_int16_dtype
  | pressio_int32_dtype
  | pressio_int64_dtype
  | pressio_uint8_dtype
  | pressio_uint16_dtype
  | pressio_uint32_dtype
  | pressio_uint64_dtype
  | pressio_byte_dtype

text \<open>What the external plugin reads of a \<^verbatim>\<open>pressio_data\<close>: its element type and its
  dimensions, a vector of \<^verbatim>\<open>size_t\<close>.\<close>

record pressio_data =
  dtype :: pressio_dtype
  dimensions :: "nat list"

datatype extern_proc_error_codes = success | pipe_error | fork_error | exec_error | format_error

fun error_code_int :: "extern_proc_error_codes \<Rightarrow> int" where
  "error_code_int success = 0"
| "error_code_int pipe_error = 1"
| "error_code_int fork_error = 2"
| "error_code_int exec_error = 3"
| "error_code_int format_error = 4"

record extern_proc_results =
  proc_stdout :: string
  proc_stderr :: string
  return_code :: int
  error_code :: int

text \<open>The members of an \<^verbatim>\<open>external_metric_plugin\<close>. \<^verbatim>\<open>io_module\<close> is a \<^verbatim>\<open>pressio_io\<close>,
  a shared pointer that may be null (\<open>None\<close>); the plugins behind it are values of a type
  variable \<open>'io\<close>.\<close>

record 'io external_metric_plugin =
  input_data :: pressio_data
  command :: string
  io_format :: string
  results :: pressio_options
  io_module :: "'io option"

text \<open>The constructor: typed entries without values; \<^verbatim>\<open>io_format\<close> starts as
  \<^verbatim>\<open>"posix"\<close> and \<^verbatim>\<open>io_module\<close> as the null pointer.\<close>

definition external_new :: "'io external_metric_plugin" where
  "external_new =
     (let results = Map.empty;
          results = options_set_type results ''external:error_code'' pressio_option_int32_type;
          results = options_set_type results ''external:return_code'' pressio_option_int32_type;
          results = options_set_type results ''external:stderr'' pressio_option_charptr_type
      in \<lparr> input_data = \<lparr> dtype = pressio_byte_dtype, dimensions = [] \<rparr>,
           command = [], io_format = ''posix'', results = results, io_module = None \<rparr>)"

subsection \<open>Parsing the output of the external program\<close>

text \<open>\<^verbatim>\<open>api_version_number\<close> (lines 326 to 335) reads the first line off the stream.
  \<^verbatim>\<open>eq_pos\<close> is \<^verbatim>\<open>version_line.find('=') + 1\<close> in \<^verbatim>\<open>size_t\<close>, so it is 0 when
  there is no \<open>=\<close> (\<^verbatim>\<open>npos + 1\<close> wraps). \<^verbatim>\<open>getline\<close>'s failure is not tested, and leaves
  the line empty. The result is what the function returns or throws, and the stream
  afterwards.\<close>

definition api_version_number :: "string \<Rightarrow> (exception + nat) \<times> string" where
  "api_version_number stdout_stream =
     (let (version_line, rest) =
            (case getline stdout_stream of None \<Rightarrow> ([], stdout_stream) | Some lr \<Rightarrow> lr);
          eq_pos = (case find_eq version_line of None \<Rightarrow> 0 | Some i \<Rightarrow> i + 1)
      in if take eq_pos version_line = ''external:api'' then (Inr 0, rest)
         else (stoull (drop eq_pos version_line), rest))"

text \<open>The name and the text of the value of a result line (lines 360 to 362):
  \<^verbatim>\<open>line.substr(0, equal_pos)\<close> and \<^verbatim>\<open>line.substr(equal_pos + 1)\<close>. Both are the
  whole line when it has no \<open>=\<close>.\<close>

definition line_name :: "string \<Rightarrow> string" where
  "line_name line =
     ''external:results:'' @ (case find_eq line of None \<Rightarrow> line | Some i \<Rightarrow> take i line)"

definition line_value_s :: "string \<Rightarrow> string" where
  "line_value_s line = (case find_eq line of None \<Rightarrow> line | Some i \<Rightarrow> drop (i + 1) line)"

lemma getline_shorter: "getline stream = Some (line, rest) \<Longrightarrow> length rest < length stream"
  by (cases stream)
     (auto simp: getline_def less_Suc_eq_le intro: le_trans [OF diff_le_self length_dropWhile_le]
           split: if_splits)

text \<open>The \<^verbatim>\<open>for\<close> loop of \<^verbatim>\<open>parse_v1\<close> (lines 359 to 365). It changes the member
  \<^verbatim>\<open>results\<close> line by line, so when \<^verbatim>\<open>std::stod\<close> throws, the entries of the lines
  before are already stored: the result is \<^verbatim>\<open>results\<close> when the loop is left, and the
  exception that left it, if any.\<close>

function parse_v1_loop :: "stod_fn \<Rightarrow> pressio_options \<Rightarrow> string \<Rightarrow> pressio_options \<times> exception option" where
  "parse_v1_loop stod res stdout_stream =
     (case getline stdout_stream of
        None \<Rightarrow> (res, None)
      | Some (line, rest) \<Rightarrow>
          (case stod (line_value_s line) of
             Inl e \<Rightarrow> (res, Some e)
           | Inr v \<Rightarrow>
               parse_v1_loop stod (options_set res (line_name line) (option_double (Some v))) rest))"
  by pat_completeness auto
termination
  by (relation "measure (\<lambda>(stod, res, stdout_stream). length stdout_stream)")
     (auto dest: getline_shorter)

declare parse_v1_loop.simps [simp del]

definition parse_v1 ::
    "stod_fn \<Rightarrow> string \<Rightarrow> extern_proc_results \<Rightarrow> pressio_options \<Rightarrow> pressio_options \<times> exception option" where
  "parse_v1 stod stdout_stream input res =
     (case parse_v1_loop stod (options_clear res) stdout_stream of
        (res, Some e) \<Rightarrow> (res, Some e)
      | (res, None) \<Rightarrow>
          (let res = options_set res ''external:stderr'' (option_charptr (Some (proc_stderr input)));
               res = options_set res ''external:return_code'' (option_int32 (Some (return_code input)));
               res = options_set res ''external:error_code'' (option_int32 (Some (return_code input)))
           in (res, None)))"

text \<open>What \<^verbatim>\<open>parse_result\<close> stores after the \<^verbatim>\<open>try\<close> block (lines 350 to 353), from
  the \<^verbatim>\<open>results\<close> it finds.\<close>

definition report_format_error :: "pressio_options \<Rightarrow> pressio_options" where
  "report_format_error res =
     (let res = options_clear res;
          res = options_set res ''external:error_code'' (option_int32 (Some (error_code_int format_error)));
          res = options_set res ''external:return_code'' (option_int32 (Some 0));
          res = options_set res ''external:stderr'' (option_charptr (Some []))
      in res)"

text \<open>\<^verbatim>\<open>parse_result\<close> (lines 337 to 354), from the member \<^verbatim>\<open>results\<close> before the
  call (\<open>res\<close>) and the outcome \<open>r\<close> of the process to the member afterwards. An
  exception of \<^verbatim>\<open>api_version_number\<close> or of \<^verbatim>\<open>parse_v1\<close> is caught by
  \<^verbatim>\<open>catch(...)\<close>, and control goes on after the \<^verbatim>\<open>try\<close> block, as it does for a
  version other than 1.\<close>

definition parse_result :: "stod_fn \<Rightarrow> pressio_options \<Rightarrow> extern_proc_results \<Rightarrow> pressio_options" where
  "parse_result stod res r =
     (case api_version_number (proc_stdout r) of
        (Inl e, stdout_stream) \<Rightarrow> report_format_error res
      | (Inr api_version, stdout_stream) \<Rightarrow>
          if api_version = 1 then
            (case parse_v1 stod stdout_stream r res of
               (res, None) \<Rightarrow> res
             | (res, Some e) \<Rightarrow> report_format_error res)
          else report_format_error res)"

subsection \<open>The command line\<close>

fun dtype_name :: "pressio_dtype \<Rightarrow> string" where
  "dtype_name pressio_float_dtype = ''float''"
| "dtype_name pressio_double_dtype = ''double''"
| "dtype_name pressio_int8_dtype = ''int8''"
| "dtype_name pressio_int16_dtype = ''int16''"
| "dtype_name pressio_int32_dtype = ''int32''"
| "dtype_name pressio_int64_dtype = ''int64''"
| "dtype_name pressio_uint8_dtype = ''uint8''"
| "dtype_name pressio_uint16_dtype = ''uint16''"
| "dtype_name pressio_uint32_dtype = ''uint32''"
| "dtype_name pressio_uint64_dtype = ''uint64''"
| "dtype_name pressio_byte_dtype = ''byte''"

text \<open>\<^verbatim>\<open>build_command\<close> (lines 371 to 395). \<open>ss\<close> is the text the
  \<^verbatim>\<open>std::ostringstream\<close> holds, each \<^verbatim>\<open><<\<close> appends to it.\<close>

definition build_command ::
    "'io external_metric_plugin \<Rightarrow> string \<Rightarrow> string \<Rightarrow> pressio_data \<Rightarrow> string" where
  "build_command st input_path decomp_path data =
     (let ss = [];
          ss = ss @ command st;
          ss = ss @ '' --api 1'';
          ss = ss @ '' --input '' @ input_path;
          ss = ss @ '' --decompressed '' @ decomp_path;
          ss = ss @ '' --type '';
          ss = ss @ dtype_name (dtype data);
          ss = foldl (\<lambda>ss i. ss @ '' --dim '' @ put_size i) ss (dimensions data)
      in ss)"

subsection \<open>Configuration\<close>

text \<open>
  \<^verbatim>\<open>set_metrics_options\<close> (lines 297 to 305). \<^verbatim>\<open>pressio::get_io\<close> is declared in
  \<^verbatim>\<open>libpressio_ext/cpp/pressio.h\<close>, which is not among the sources: it is the
  parameter \<open>get_io\<close>, from the name of a format to the \<^verbatim>\<open>pressio_io\<close> it returns,
  which holds the null pointer when no such plugin can be built. The plugin's
  \<^verbatim>\<open>set_options\<close> is the parameter \<open>io_set_options\<close>.
  \<^verbatim>\<open>io_module->set_options(opt)\<close> dereferences the pointer; on the null pointer the
  behaviour is undefined and the function does not return: the outcome is then
  \<open>Null_dereference\<close>, with the members as they are at that point.
\<close>

datatype 'a outcome = Returns int 'a | Null_dereference 'a

definition set_metrics_options ::
    "(string \<Rightarrow> 'io option) \<Rightarrow> (pressio_options \<Rightarrow> 'io \<Rightarrow> 'io) \<Rightarrow> pressio_options
       \<Rightarrow> 'io external_metric_plugin \<Rightarrow> 'io external_metric_plugin outcome" where
  "set_metrics_options get_io io_set_options opt st =
     (let st = st\<lparr> command := snd (options_get_string opt ''external:command'' (command st)) \<rparr>;
          (status, fmt) = options_get_string opt ''external:io_format'' (io_format st);
          st = st\<lparr> io_format := fmt \<rparr>;
          st = (if status = pressio_options_key_set
                then st\<lparr> io_module := get_io (io_format st) \<rparr> else st)
      in case io_module st of
           None \<Rightarrow> Null_dereference st
         | Some io \<Rightarrow> Returns 0 (st\<lparr> io_module := Some (io_set_options opt io) \<rparr>))"

section \<open>What the specification speaks of\<close>

text \<open>The definitions of this section are not taken from the code: they name what
  the claims speak of, and the code above is compared with them.\<close>

text \<open>The fields of an \<open>error_metrics\<close> in the order of \<open>error_stat_keys\<close>.\<close>

definition metric_values :: "error_metrics \<Rightarrow> double list" where
  "metric_values m =
     [psnr m, mse m, rmse m, value_mean m, value_std m, value_min m, value_max m,
      value_range m, min_error m, max_error m, min_rel_error m, max_rel_error m,
      average_difference m, average_error m, difference_range m, error_range m]"

text \<open>A call of \<^verbatim>\<open>begin_compress\<close>, as opposed to one of \<^verbatim>\<open>end_decompress\<close>.\<close>

fun is_begin :: "'d stat_call \<Rightarrow> bool" where
  "is_begin (Begin_compress d) = True"
| "is_begin (End_decompress d) = False"

text \<open>The sums the specification describes \<open>value_std\<close> with,
  \<^verbatim>\<open>sum_sq_values - sum*sum/n\<close>: the sum of the values and the sum of their squares, both
  of them sums of doubles taken in the order of the data, and the residual made of
  them.\<close>

definition sum_of_values :: "('e, 'p) arith \<Rightarrow> 'e list \<Rightarrow> double" where
  "sum_of_values A xs = foldl (\<lambda>s x. dadd s (double_e A x)) (Fin 0) xs"

definition sum_of_squares :: "('e, 'p) arith \<Rightarrow> 'e list \<Rightarrow> double" where
  "sum_of_squares A xs = foldl (\<lambda>s x. dadd s (dmul (double_e A x) (double_e A x))) (Fin 0) xs"

definition raw_residual :: "('e, 'p) arith \<Rightarrow> 'e list \<Rightarrow> double" where
  "raw_residual A xs =
     dsub (sum_of_squares A xs)
       (ddiv (dmul (sum_of_values A xs) (sum_of_values A xs)) (Fin (real (length xs))))"

text \<open>The metrics of a dataset \<open>xs\<close> that was reconstructed without any error: the
  five error fields are zero, and the peak signal-to-noise ratio is \<open>+inf\<close>, unless all
  the values of the dataset are the same, where it is NaN.\<close>

definition no_error_metrics :: "'e list \<Rightarrow> error_metrics \<Rightarrow> bool" where
  "no_error_metrics xs m \<longleftrightarrow>
     mse m = Fin 0 \<and> rmse m = Fin 0 \<and> average_error m = Fin 0 \<and>
     min_error m = Fin 0 \<and> max_error m = Fin 0 \<and>
     psnr m = (if \<forall>x\<in>set xs. x = hd xs then NaN else PInf)"

text \<open>The wire protocol. The text on stdout is made of lines separated by newlines; the
  last line may or may not end with one (\<open>terminated\<close>).\<close>

fun join_lines :: "bool \<Rightarrow> string list \<Rightarrow> string" where
  "join_lines terminated [] = []"
| "join_lines terminated [l] = (if terminated then l @ [CHR 0x0A] else l)"
| "join_lines terminated (l # ls) = l @ [CHR 0x0A] @ join_lines terminated ls"

text \<open>The first line of a text: what precedes its first newline.\<close>

definition first_line :: "string \<Rightarrow> string" where
  "first_line out = takeWhile (\<lambda>c. c \<noteq> CHR 0x0A) out"

text \<open>A stdout of version 1 that reports the entries \<open>(name, value)\<close>, the value being
  the text of a number: the line \<open>external:api=1\<close>, then the line \<open><name>=<value>\<close> of
  each entry. So that the lines are what they are meant to be, a name holds neither \<open>=\<close>
  nor a newline and a value holds no newline.\<close>

definition wire_line :: "string \<times> string \<Rightarrow> string" where
  "wire_line entry = fst entry @ ''='' @ snd entry"

definition wire_text :: "bool \<Rightarrow> (string \<times> string) list \<Rightarrow> string" where
  "wire_text terminated entries = join_lines terminated (''external:api=1'' # map wire_line entries)"

definition wire_entry :: "string \<times> string \<Rightarrow> bool" where
  "wire_entry entry \<longleftrightarrow>
     CHR ''='' \<notin> set (fst entry) \<and> CHR 0x0A \<notin> set (fst entry) \<and> CHR 0x0A \<notin> set (snd entry)"

text \<open>The result set \<^verbatim>\<open>parse_result\<close> leaves after a failure.\<close>

definition format_error_results :: pressio_options where
  "format_error_results =
     [''external:error_code'' \<mapsto> option_int32 (Some (error_code_int format_error)),
      ''external:return_code'' \<mapsto> option_int32 (Some 0),
      ''external:stderr'' \<mapsto> option_charptr (Some [])]"

section \<open>Facts about the double arithmetic\<close>

lemma dbl_overflow_pos: "0 < dbl_overflow"
  by (simp add: dbl_overflow_def)

lemma dbl_overflow_big: "2 ^ 100 < dbl_overflow"
  by (simp add: dbl_overflow_def)

lemma round_to_zero: "round_to dbl_overflow 0 = Fin 0"
  using dbl_overflow_pos by (simp add: round_to_def)

lemma round_to_small: "\<bar>r\<bar> \<le> 2 ^ 100 \<Longrightarrow> round_to dbl_overflow r = Fin r"
  using dbl_overflow_big by (auto simp: round_to_def abs_le_iff)

lemma round_to_nonneg:
  "0 \<le> r \<Longrightarrow> round_to dbl_overflow r = PInf \<or> round_to dbl_overflow r = Fin r"
  using dbl_overflow_pos by (simp add: round_to_def)

lemma dge_round_to: "0 \<le> r \<Longrightarrow> dge (round_to dbl_overflow r) (Fin 0)"
  using round_to_nonneg [of r] by (auto simp: dge_def)

text \<open>Evaluation of the four operations on finite values far from the threshold.\<close>

lemma dadd_Fin: "\<bar>a + b\<bar> \<le> 2 ^ 100 \<Longrightarrow> dadd (Fin a) (Fin b) = Fin (a + b)"
  by (simp add: dadd_def round_to_small)

lemma dsub_Fin: "\<bar>a - b\<bar> \<le> 2 ^ 100 \<Longrightarrow> dsub (Fin a) (Fin b) = Fin (a - b)"
  by (simp add: dsub_def fsub_def round_to_small)

lemma dmul_Fin: "\<bar>a * b\<bar> \<le> 2 ^ 100 \<Longrightarrow> dmul (Fin a) (Fin b) = Fin (a * b)"
  by (simp add: dmul_def round_to_small)

lemma ddiv_Fin: "b \<noteq> 0 \<Longrightarrow> \<bar>a / b\<bar> \<le> 2 ^ 100 \<Longrightarrow> ddiv (Fin a) (Fin b) = Fin (a / b)"
  by (simp add: ddiv_def round_to_small)

lemmas double_eval = dadd_Fin dsub_Fin dmul_Fin ddiv_Fin std_min_def std_max_def

lemmas compute_metrics_eval =
  compute_metrics_def init_locals_def loop_body_def finish_def Let_def

lemma is_finite_iff: "is_finite d \<longleftrightarrow> (\<exists>r. d = Fin r)"
  by (cases d) simp_all

lemma all_finite_map: "list_all is_finite xs \<Longrightarrow> \<exists>rs. xs = map Fin rs"
  by (induction xs) (auto simp: is_finite_iff Cons_eq_map_conv)

lemma dsub_self: "dsub (Fin r) (Fin r) = Fin 0"
  by (simp add: dsub_def fsub_def round_to_zero)

lemma dadd_zero: "dadd (Fin 0) (Fin 0) = Fin 0"
  by (simp add: dadd_def round_to_zero)

lemma dmul_zero: "dmul (Fin 0) (Fin 0) = Fin 0"
  by (simp add: dmul_def round_to_zero)

lemma ddiv_zero_count: "0 < n \<Longrightarrow> ddiv (Fin 0) (Fin (real n)) = Fin 0"
  by (simp add: ddiv_def round_to_zero)

lemma ddiv_zero_zero: "ddiv (Fin 0) (Fin 0) = NaN"
  by (simp add: ddiv_def)

lemma dmul_NaN: "dmul a NaN = NaN"
  by (cases a) (simp_all add: dmul_def)

lemma dsub_finite_cases:
  "is_finite (dsub x y) \<Longrightarrow> \<exists>a b. x = Fin a \<and> y = Fin b \<and> dsub x y = Fin (a - b)"
  by (cases x; cases y) (auto simp: dsub_def fsub_def round_to_def split: if_splits)

lemma std_min_Fin: "std_min dless (Fin a) (Fin b) = Fin (min a b)"
  by (simp add: std_min_def min_def)

lemma std_max_Fin: "std_max dless (Fin a) (Fin b) = Fin (max a b)"
  by (simp add: std_max_def max_def)

lemma fold_min_le_fold_max: "lo \<le> hi \<Longrightarrow> fold min rs (lo::real) \<le> fold max rs hi"
  by (induction rs arbitrary: lo hi) (auto simp: min.coboundedI2 max.coboundedI2)

lemma fold_min_max_eq:
  "fold min rs (r::real) = fold max rs r \<longleftrightarrow> (\<forall>x\<in>set rs. x = r)"
proof -
  have mn: "fold min rs r = Min (set (r # rs))" by (rule Min.set_eq_fold [symmetric])
  have mx: "fold max rs r = Max (set (r # rs))" by (rule Max.set_eq_fold [symmetric])
  show ?thesis
  proof
    assume eq: "fold min rs r = fold max rs r"
    show "\<forall>x\<in>set rs. x = r"
    proof
      fix x assume x: "x \<in> set rs"
      have "Min (set (r # rs)) \<le> x" "x \<le> Max (set (r # rs))"
        "Min (set (r # rs)) \<le> r" "r \<le> Max (set (r # rs))"
        using x by (auto intro!: Min_le Max_ge)
      with eq mn mx show "x = r" by linarith
    qed
  next
    assume "\<forall>x\<in>set rs. x = r"
    then have "set (r # rs) = {r}" by auto
    with mn mx show "fold min rs r = fold max rs r" by (simp del: set_simps)
  qed
qed

section \<open>Facts about single precision\<close>

lemma round_even_of_int: "round_even (of_int k) = k"
  by (simp add: round_even_def)

lemma round_even_nonneg: "0 \<le> q \<Longrightarrow> 0 \<le> round_even q"
  by (auto simp: round_even_def Let_def)

lemma round_even_pos: "1 \<le> q \<Longrightarrow> 1 \<le> round_even q"
proof -
  assume "1 \<le> q"
  then have "1 \<le> \<lfloor>q\<rfloor>" by simp
  then show ?thesis by (auto simp: round_even_def Let_def)
qed

lemma round_single_nonneg: "0 \<le> r \<Longrightarrow> 0 \<le> round_single r"
  by (auto simp: round_single_def intro!: mult_nonneg_nonneg round_even_nonneg divide_nonneg_nonneg)

lemma two_powi_floor_log: "0 < r \<Longrightarrow> 2 powi \<lfloor>log 2 r\<rfloor> \<le> r"
proof -
  assume r: "0 < r"
  have "2 powr (of_int \<lfloor>log 2 r\<rfloor>) \<le> r"
    using floor_log_eq_powr_iff [of r 2 "\<lfloor>log 2 r\<rfloor>"] r by simp
  then show ?thesis by (simp add: powr_real_of_int')
qed

lemma round_single_pos:
  assumes "2 powi (- 149) \<le> r"
  shows "0 < round_single r"
proof -
  have "(0::real) < 2 powi (- 149)" by simp
  with assms have r: "0 < r" by linarith
  let ?e = "ulp_exponent r"
  have p: "(0::real) < 2 powi ?e" by simp
  have "2 powi ?e \<le> r"
  proof (cases "\<lfloor>log 2 \<bar>r\<bar>\<rfloor> - 23 \<le> - 149")
    case True
    then have "?e = - 149" by (simp add: ulp_exponent_def)
    with assms show ?thesis by simp
  next
    case False
    then have e: "?e = \<lfloor>log 2 r\<rfloor> - 23" using r by (simp add: ulp_exponent_def)
    have "(2::real) powi ?e \<le> 2 powi \<lfloor>log 2 r\<rfloor>"
      unfolding e by (rule power_int_increasing) simp_all
    also have "\<dots> \<le> r" by (rule two_powi_floor_log [OF r])
    finally show ?thesis .
  qed
  with p have "1 \<le> r / 2 powi ?e" by (simp add: field_simps)
  then have "1 \<le> round_even (r / 2 powi ?e)" by (rule round_even_pos)
  then have "0 < real_of_int (round_even (r / 2 powi ?e))" by simp
  with p r show ?thesis by (simp add: round_single_def)
qed

lemma ulp_exponent_ge: "- 149 \<le> ulp_exponent r"
  by (simp add: ulp_exponent_def)

lemma round_single_grid: "\<exists>m::int. round_single r = of_int m * 2 powi (- 149)"
proof (cases "r = 0")
  case True
  then show ?thesis by (simp add: round_single_def exI [of _ 0])
next
  case False
  let ?e = "ulp_exponent r"
  define k where "k = nat (?e + 149)"
  have e: "?e = int k - 149" using ulp_exponent_ge [of r] by (simp add: k_def)
  have "(2::real) powi ?e = 2 ^ k * 2 powi (- 149)"
    unfolding e by (simp add: power_int_diff power_int_minus field_simps)
  then have "round_single r = of_int (round_even (r / 2 powi ?e) * 2 ^ k) * 2 powi (- 149)"
    using False by (simp add: round_single_def)
  then show ?thesis by blast
qed

lemma single_values_apart:
  assumes a: "round_single a = a" and b: "round_single b = b" and lt: "b < a"
  shows "2 powi (- 149) \<le> a - b"
proof -
  from round_single_grid [of a] a obtain m where m: "a = of_int m * 2 powi (- 149)" by metis
  from round_single_grid [of b] b obtain n where n: "b = of_int n * 2 powi (- 149)" by metis
  have p: "(0::real) < 2 powi (- 149)" by simp
  from lt have "of_int n * (2::real) powi (- 149) < of_int m * 2 powi (- 149)" using m n by simp
  with p have "real_of_int n < real_of_int m" by (simp only: mult_less_cancel_right_pos)
  then have "n + 1 \<le> m" by simp
  then have "real_of_int n + 1 \<le> real_of_int m" by linarith
  then have "(real_of_int n + 1) * 2 powi (- 149) \<le> real_of_int m * 2 powi (- 149)"
    using p by (simp only: mult_le_cancel_right_pos)
  then show ?thesis unfolding m n by (simp add: algebra_simps)
qed

lemma round_single_small_int:
  assumes "\<bar>k\<bar> < 2 ^ 24"
  shows "round_single (of_int k) = of_int k"
proof (cases "k = 0")
  case True
  then show ?thesis by (simp add: round_single_def)
next
  case False
  let ?r = "real_of_int k"
  have pos: "0 < \<bar>?r\<bar>" using False by simp
  have ge1: "1 \<le> \<bar>?r\<bar>" using False by (simp add: abs_if)
  have lt: "\<bar>?r\<bar> < 2 ^ 24" using assms by (metis of_int_abs of_int_less_numeral_power_cancel_iff)
  have "0 \<le> log 2 \<bar>?r\<bar>" using ge1 by simp
  then have lo: "0 \<le> \<lfloor>log 2 \<bar>?r\<bar>\<rfloor>" by simp
  have "log 2 \<bar>?r\<bar> < 24" using lt pos by (simp add: log_less_iff powr_realpow [symmetric])
  then have hi: "\<lfloor>log 2 \<bar>?r\<bar>\<rfloor> \<le> 23" by (simp add: floor_le_iff)
  define j where "j = nat (23 - \<lfloor>log 2 \<bar>?r\<bar>\<rfloor>)"
  have e: "ulp_exponent ?r = - int j" using lo hi by (simp add: ulp_exponent_def j_def)
  have pw: "(2::real) powi (- int j) = 1 / 2 ^ j" by (simp add: power_int_minus field_simps)
  have "?r / 2 powi (- int j) = of_int (k * 2 ^ j)" by (simp add: pw)
  then have "round_even (?r / 2 powi (- int j)) = k * 2 ^ j" by (simp only: round_even_of_int)
  then show ?thesis using False by (simp add: round_single_def e) (simp add: pw)
qed

lemma flt_overflow_big: "2 ^ 100 < flt_overflow"
  by (simp add: flt_overflow_def)

lemma to_single_zero: "to_single 0 = Fin 0"
  using flt_overflow_big by (simp add: to_single_def round_single_def)

lemma to_single_small_int: "\<bar>k\<bar> < 2 ^ 24 \<Longrightarrow> to_single (of_int k) = Fin (of_int k)"
proof -
  assume k: "\<bar>k\<bar> < 2 ^ 24"
  then have "\<bar>real_of_int k\<bar> < 2 ^ 24"
    by (metis of_int_abs of_int_less_numeral_power_cancel_iff)
  with flt_overflow_big have "\<not> flt_overflow \<le> of_int k" "\<not> of_int k \<le> - flt_overflow"
    by (simp_all add: abs_less_iff)
  with round_single_small_int [OF k] show ?thesis by (simp add: to_single_def)
qed

lemma to_single_numeral:
  "(numeral n :: int) < 2 ^ 24 \<Longrightarrow> to_single (numeral n) = Fin (numeral n)"
  "(numeral n :: int) < 2 ^ 24 \<Longrightarrow> to_single (- numeral n) = Fin (- numeral n)"
  "to_single 1 = Fin 1" "to_single (- 1) = Fin (- 1)"
  using to_single_small_int [of "numeral n"] to_single_small_int [of "- numeral n"]
    to_single_small_int [of 1] to_single_small_int [of "- 1"]
  by simp_all

lemma to_single_nonneg: "0 \<le> r \<Longrightarrow> to_single r = PInf \<or> (\<exists>q\<ge>0. to_single r = Fin q)"
  using flt_overflow_big round_single_nonneg [of r] by (simp add: to_single_def)

lemma to_single_pos:
  "2 powi (- 149) \<le> r \<Longrightarrow> to_single r = PInf \<or> (\<exists>q>0. to_single r = Fin q)"
proof -
  assume r: "2 powi (- 149) \<le> r"
  have "(0::real) < 2 powi (- 149)" by simp
  with r have "0 < r" by linarith
  with flt_overflow_big round_single_pos [OF r] show ?thesis by (simp add: to_single_def)
qed

text \<open>The square of 4097 is \<open>2^24 + 8193\<close>, halfway between the two neighbouring floats
  \<open>16785408\<close> and \<open>16785410\<close>; it is rounded to the first, whose mantissa is even.\<close>

lemma floor_log2_eq:
  assumes "2 ^ k \<le> r" and "r < 2 ^ Suc k"
  shows "\<lfloor>log 2 r\<rfloor> = int k"
proof -
  have pos: "0 < r" using assms(1) by (rule less_le_trans [rotated]) simp
  have "real k \<le> log 2 r" using assms(1) pos by (simp add: le_log_iff powr_realpow)
  moreover have "log 2 r < real k + 1"
    using assms(2) pos by (simp add: log_less_iff powr_realpow [symmetric] powr_add)
  ultimately show ?thesis by (simp add: floor_eq_iff)
qed

lemma to_single_4097_squared: "to_single 16785409 = Fin 16785408"
proof -
  have fl: "\<lfloor>log 2 (16785409::real)\<rfloor> = 24"
    using floor_log2_eq [of 24 16785409] by simp
  have e: "ulp_exponent 16785409 = 1" by (simp add: ulp_exponent_def fl)
  have "round_even (16785409 / 2) = 8392704"
    by (simp add: round_even_def)
  then have "round_single 16785409 = 16785408"
    by (simp add: round_single_def e)
  moreover have "\<not> flt_overflow \<le> 16785409" "\<not> (16785409::real) \<le> - flt_overflow"
    using flt_overflow_big by simp_all
  ultimately show ?thesis by (simp add: to_single_def)
qed

lemma dge_to_single: "0 \<le> r \<Longrightarrow> dge (to_single r) (Fin 0)"
  using to_single_nonneg [of r] by (auto simp: dge_def)

lemma fsub_single_finite_cases:
  "is_finite (fsub to_single x y) \<Longrightarrow> \<exists>a b. x = Fin a \<and> y = Fin b"
  by (cases x; cases y) (auto simp: fsub_def)

lemma dge_Fin: "dge (Fin r) (Fin 0) \<longleftrightarrow> 0 \<le> r"
  by (auto simp: dge_def)

lemma is_single_round: "is_single (Fin r) \<Longrightarrow> round_single r = r"
  by (simp add: to_single_def split: if_splits)

section \<open>Facts about the loop of \<^verbatim>\<open>compute_metrics\<close>\<close>

lemma while_loop_total:
  "length xs \<le> length ys \<Longrightarrow> \<exists>st'. while_loop A st xs ys = Some st'"
  by (induction A st xs ys rule: while_loop.induct) simp_all

lemma while_loop_sums:
  "while_loop A st xs ys = Some st' \<Longrightarrow>
     sum_acc st' = foldl (\<lambda>s x. dadd s (double_e A x)) (sum_acc st) xs \<and>
     sum_of_values_squared st' =
       foldl (\<lambda>s x. dadd s (double_p A (times_e A x x))) (sum_of_values_squared st) xs \<and>
     num_elements st' = num_elements st + length xs"
  by (induction A st xs ys rule: while_loop.induct) (simp_all add: loop_body_def Let_def)

text \<open>
  The minimum and the maximum the loop keeps. The element type is seen through a key
  \<open>ke\<close> into the reals that \<^verbatim>\<open>operator<\<close> agrees with on the values at hand (the
  value itself for a finite floating-point number, the integer for a word); the same for
  the promoted type of the differences, with the key \<open>kp\<close>.
\<close>

lemma while_loop_values_in:
  fixes ke :: "'e \<Rightarrow> real"
  assumes "while_loop A st zs ys = Some st'"
    and "set zs \<subseteq> S" and "value_min_acc st \<in> S" and "value_max_acc st \<in> S"
    and "\<And>a b. a \<in> S \<Longrightarrow> b \<in> S \<Longrightarrow> less_e A a b \<longleftrightarrow> ke a < ke b"
  shows "value_min_acc st' \<in> S \<and> value_max_acc st' \<in> S \<and>
         ke (value_min_acc st') = fold min (map ke zs) (ke (value_min_acc st)) \<and>
         ke (value_max_acc st') = fold max (map ke zs) (ke (value_max_acc st))"
  using assms
proof (induction A st zs ys rule: while_loop.induct)
  case (1 A st ys)
  then show ?case by simp
next
  case (2 A st x xs)
  then show ?case by simp
next
  case (3 A st x xs y ys)
  let ?st = "loop_body A st x y"
  from "3.prems" have x: "x \<in> S" and xs: "set xs \<subseteq> S" by simp_all
  have mn: "value_min_acc ?st = (if ke x < ke (value_min_acc st) then x else value_min_acc st)"
    and mx: "value_max_acc ?st = (if ke (value_max_acc st) < ke x then x else value_max_acc st)"
    using "3.prems"(3,4) x "3.prems"(5)
    by (simp_all add: loop_body_def Let_def std_min_def std_max_def)
  have in_S: "value_min_acc ?st \<in> S" "value_max_acc ?st \<in> S"
    using x "3.prems"(3,4) by (simp_all add: mn mx)
  have k: "ke (value_min_acc ?st) = min (ke x) (ke (value_min_acc st))"
    "ke (value_max_acc ?st) = max (ke x) (ke (value_max_acc st))"
    by (auto simp: mn mx min_def max_def)
  from "3.IH" [OF _ xs in_S "3.prems"(5)] "3.prems"(1)
  show ?case by (simp add: k)
qed

lemma while_loop_diffs_in:
  fixes kp :: "'p \<Rightarrow> real"
  assumes "while_loop A st zs ys = Some st'"
    and "list_all2 (\<lambda>x y. minus_e A x y \<in> D) zs (take (length zs) ys)"
    and "diff_min st \<in> D" and "diff_max st \<in> D"
    and "kp (diff_min st) \<le> kp (diff_max st)"
    and "\<And>p q. p \<in> D \<Longrightarrow> q \<in> D \<Longrightarrow> less_p A p q \<longleftrightarrow> kp p < kp q"
  shows "diff_min st' \<in> D \<and> diff_max st' \<in> D \<and> kp (diff_min st') \<le> kp (diff_max st')"
  using assms
proof (induction A st zs ys rule: while_loop.induct)
  case (1 A st ys)
  then show ?case by simp
next
  case (2 A st x xs)
  then show ?case by simp
next
  case (3 A st x xs y ys)
  let ?st = "loop_body A st x y"
  let ?d = "minus_e A x y"
  from "3.prems"(2) have d: "?d \<in> D"
    and rest: "list_all2 (\<lambda>x y. minus_e A x y \<in> D) xs (take (length xs) ys)" by simp_all
  have mn: "diff_min ?st = (if kp (diff_min st) < kp ?d then diff_min st else ?d)"
    and mx: "diff_max ?st = (if kp ?d < kp (diff_max st) then diff_max st else ?d)"
    using "3.prems"(3,4) d "3.prems"(6)
    by (simp_all add: loop_body_def Let_def std_min_def std_max_def)
  have in_D: "diff_min ?st \<in> D" "diff_max ?st \<in> D"
    using d "3.prems"(3,4) by (simp_all add: mn mx)
  have le: "kp (diff_min ?st) \<le> kp (diff_max ?st)"
    using "3.prems"(5) by (auto simp: mn mx)
  from "3.IH" [OF _ rest in_D le "3.prems"(6)] "3.prems"(1)
  show ?case by simp
qed

lemma while_loop_errors_ordered:
  assumes "while_loop A st zs ys = Some st'"
    and "list_all2 (\<lambda>x y. is_finite (double_p A (minus_e A x y))) zs (take (length zs) ys)"
    and "error_min st = Fin a" and "error_max st = Fin b" and "a \<le> b"
  shows "\<exists>a' b'. error_min st' = Fin a' \<and> error_max st' = Fin b' \<and> a' \<le> b'"
  using assms
proof (induction A st zs ys arbitrary: a b rule: while_loop.induct)
  case (1 A st ys)
  then show ?case by simp
next
  case (2 A st x xs)
  then show ?case by simp
next
  case (3 A st x xs y ys)
  let ?st = "loop_body A st x y"
  from "3.prems"(2) obtain r where r: "double_p A (minus_e A x y) = Fin r"
    and rest: "list_all2 (\<lambda>x y. is_finite (double_p A (minus_e A x y))) xs (take (length xs) ys)"
    by (auto simp: is_finite_iff)
  define e where "e = \<bar>r\<bar>"
  have "error_min ?st = Fin (min e a)" "error_max ?st = Fin (max e b)"
    using "3.prems"(3,4)
    by (simp_all add: loop_body_def Let_def r e_def std_min_Fin std_max_Fin)
  moreover have "min e a \<le> max e b" by (simp add: min.coboundedI1 max.coboundedI1)
  ultimately show ?case using "3.IH" [OF _ rest, of "min e a" "max e b"] "3.prems"(1) by simp
qed

lemma dless_dabs_Fin: "dless (dabs z) (Fin e) \<Longrightarrow> \<exists>r. dabs z = Fin r \<and> r < e"
  by (cases z) simp_all

lemma first_turn_errors:
  assumes "double_p A (minus_e A x0 y0) = Fin r"
  shows "\<exists>a b. error_min (loop_body A (init_locals A x0 y0) x0 y0) = Fin a \<and>
               error_max (loop_body A (init_locals A x0 y0) x0 y0) = Fin b \<and> a \<le> b"
proof -
  let ?z = "dsub (double_e A x0) (double_e A y0)"
  have mx: "error_max (loop_body A (init_locals A x0 y0) x0 y0) = Fin \<bar>r\<bar>"
    by (simp add: loop_body_def init_locals_def Let_def assms std_max_def)
  have mn: "error_min (loop_body A (init_locals A x0 y0) x0 y0) =
      (if dless (dabs ?z) (Fin \<bar>r\<bar>) then dabs ?z else Fin \<bar>r\<bar>)"
    by (simp add: loop_body_def init_locals_def Let_def assms std_min_def)
  show ?thesis
  proof (cases "dless (dabs ?z) (Fin \<bar>r\<bar>)")
    case True
    from dless_dabs_Fin [OF True] obtain q where "dabs ?z = Fin q" "q < \<bar>r\<bar>" by blast
    with True mx mn show ?thesis by simp
  next
    case False
    with mx mn show ?thesis by simp
  qed
qed

lemma compute_metrics_Some:
  assumes "compute_metrics A xs ys = Some m"
  obtains x0 xs' y0 ys' st' where "xs = x0 # xs'" and "ys = y0 # ys'"
    and "while_loop A (init_locals A x0 y0) xs ys = Some st'" and "m = finish A st'"
  using assms by (auto simp: compute_metrics_def split: list.splits)

lemma compute_metrics_returns:
  assumes "xs \<noteq> []" and "length xs = length ys"
  shows "\<exists>m. compute_metrics A xs ys = Some m"
proof -
  from assms obtain x0 xs' y0 ys' where xs: "xs = x0 # xs'" and ys: "ys = y0 # ys'"
    by (cases xs; cases ys) auto
  from assms(2) obtain st' where "while_loop A (init_locals A x0 y0) xs ys = Some st'"
    using while_loop_total [of xs ys A] by auto
  then show ?thesis by (simp add: compute_metrics_def xs ys)
qed

lemma value_range_generic:
  fixes ke :: "'e \<Rightarrow> real"
  assumes cm: "compute_metrics A xs ys = Some m"
    and ord: "\<And>a b. a \<in> set xs \<Longrightarrow> b \<in> set xs \<Longrightarrow> less_e A a b \<longleftrightarrow> ke a < ke b"
    and sub: "\<And>a b. a \<in> set xs \<Longrightarrow> b \<in> set xs \<Longrightarrow> ke b \<le> ke a \<Longrightarrow>
                dge (double_p A (minus_e A a b)) (Fin 0)"
  shows "dge (value_range m) (Fin 0)"
proof -
  from cm obtain x0 xs' y0 ys' st' where xs: "xs = x0 # xs'" and ys: "ys = y0 # ys'"
    and run: "while_loop A (init_locals A x0 y0) xs ys = Some st'" and m: "m = finish A st'"
    by (rule compute_metrics_Some)
  have x0: "x0 \<in> set xs" by (simp add: xs)
  from while_loop_values_in [OF run subset_refl, of ke] x0 ord
  have mn: "value_min_acc st' \<in> set xs" and mx: "value_max_acc st' \<in> set xs"
    and kmn: "ke (value_min_acc st') = fold min (map ke xs) (ke x0)"
    and kmx: "ke (value_max_acc st') = fold max (map ke xs) (ke x0)"
    by (simp_all add: init_locals_def)
  have "ke (value_min_acc st') \<le> ke (value_max_acc st')"
    unfolding kmn kmx by (rule fold_min_le_fold_max) simp
  from sub [OF mx mn this] show ?thesis by (simp add: m finish_def Let_def)
qed

lemma difference_range_generic:
  fixes kp :: "'p \<Rightarrow> real"
  assumes cm: "compute_metrics A xs ys = Some m" and len: "length xs = length ys"
    and mem: "list_all2 (\<lambda>x y. minus_e A x y \<in> D) xs ys"
    and ord: "\<And>p q. p \<in> D \<Longrightarrow> q \<in> D \<Longrightarrow> less_p A p q \<longleftrightarrow> kp p < kp q"
    and sub: "\<And>p q. p \<in> D \<Longrightarrow> q \<in> D \<Longrightarrow> kp q \<le> kp p \<Longrightarrow>
                dge (double_p A (minus_p A p q)) (Fin 0)"
  shows "dge (difference_range m) (Fin 0)"
proof -
  from cm obtain x0 xs' y0 ys' st' where xs: "xs = x0 # xs'" and ys: "ys = y0 # ys'"
    and run: "while_loop A (init_locals A x0 y0) xs ys = Some st'" and m: "m = finish A st'"
    by (rule compute_metrics_Some)
  from mem have d0: "minus_e A x0 y0 \<in> D" by (simp add: xs ys)
  from mem len have mem': "list_all2 (\<lambda>x y. minus_e A x y \<in> D) xs (take (length xs) ys)" by simp
  from while_loop_diffs_in [OF run mem', of kp] d0 ord
  have "diff_min st' \<in> D" "diff_max st' \<in> D" "kp (diff_min st') \<le> kp (diff_max st')"
    by (simp_all add: init_locals_def)
  from sub [OF this(2,1,3)] show ?thesis by (simp add: m finish_def Let_def)
qed

lemma error_range_generic:
  assumes cm: "compute_metrics A xs ys = Some m" and len: "length xs = length ys"
    and fin: "list_all2 (\<lambda>x y. is_finite (double_p A (minus_e A x y))) xs ys"
  shows "dge (error_range m) (Fin 0)"
proof -
  from cm obtain x0 xs' y0 ys' st' where xs: "xs = x0 # xs'" and ys: "ys = y0 # ys'"
    and run: "while_loop A (init_locals A x0 y0) xs ys = Some st'" and m: "m = finish A st'"
    by (rule compute_metrics_Some)
  from fin obtain r where r: "double_p A (minus_e A x0 y0) = Fin r"
    and rest: "list_all2 (\<lambda>x y. is_finite (double_p A (minus_e A x y))) xs' ys'"
    by (auto simp: xs ys is_finite_iff)
  from len have len': "length xs' = length ys'" by (simp add: xs ys)
  let ?st1 = "loop_body A (init_locals A x0 y0) x0 y0"
  from run have run': "while_loop A ?st1 xs' ys' = Some st'" by (simp add: xs ys)
  from first_turn_errors [OF r] obtain a b
    where "error_min ?st1 = Fin a" "error_max ?st1 = Fin b" "a \<le> b" by blast
  from while_loop_errors_ordered [OF run' _ this] rest len'
  obtain a' b' where "error_min st' = Fin a'" "error_max st' = Fin b'" "a' \<le> b'" by auto
  then show ?thesis
    by (simp add: m finish_def Let_def dsub_def fsub_def dge_round_to)
qed

section \<open>The statistics\<close>

subsection \<open>The field \<open>value_std\<close>\<close>

text \<open>What the code computes, for every element type: the sum of the products
  \<^verbatim>\<open>*input_begin * *input_begin\<close> of line 54, each formed in the element type and then
  converted, minus the square of the sum of the values divided by the number of elements
  (line 78). Nothing is divided by the number of elements afterwards.\<close>

lemma value_std_accumulated:
  assumes "xs \<noteq> []" and "length xs = length ys"
  shows "\<exists>m. compute_metrics A xs ys = Some m \<and>
           value_std m =
             dsub (foldl (\<lambda>s x. dadd s (double_p A (times_e A x x))) (Fin 0) xs)
               (ddiv (dmul (sum_of_values A xs) (sum_of_values A xs))
                  (Fin (real (length xs))))"
proof -
  from assms obtain x0 xs' y0 ys' where xs: "xs = x0 # xs'" and ys: "ys = y0 # ys'"
    by (cases xs; cases ys) auto
  from assms(2) obtain st' where run: "while_loop A (init_locals A x0 y0) xs ys = Some st'"
    using while_loop_total [of xs ys A] by auto
  have cm: "compute_metrics A xs ys = Some (finish A st')"
    using run by (simp add: compute_metrics_def xs ys)
  from while_loop_sums [OF run]
  have "sum_acc st' = sum_of_values A xs"
    and "sum_of_values_squared st' = foldl (\<lambda>s x. dadd s (double_p A (times_e A x x))) (Fin 0) xs"
    and "num_elements st' = length xs"
    by (simp_all add: init_locals_def sum_of_values_def)
  then have "value_std (finish A st') =
      dsub (foldl (\<lambda>s x. dadd s (double_p A (times_e A x x))) (Fin 0) xs)
        (ddiv (dmul (sum_of_values A xs) (sum_of_values A xs)) (Fin (real (length xs))))"
    by (simp add: finish_def Let_def)
  with cm show ?thesis by simp
qed

text \<open>Where the product of the element type is the product of the doubles, this is the
  residual the specification describes: on \<^verbatim>\<open>double\<close> data, and on the 8- and 16-bit
  integers, whose products are formed as \<^verbatim>\<open>int\<close> and are exact.\<close>

lemma value_std_double:
  assumes "xs \<noteq> []" and "length xs = length ys"
  shows "\<exists>m. compute_metrics arith_double xs ys = Some m \<and>
           value_std m = raw_residual arith_double xs"
  using value_std_accumulated [OF assms, of arith_double]
  by (simp add: raw_residual_def sum_of_squares_def arith_double_def)

lemma sint_square_small:
  fixes a :: "'a::len word"
  assumes "LENGTH('a) \<le> 32"
  shows "\<bar>real_of_int (sint a * sint a)\<bar> \<le> 2 ^ 100"
proof -
  have "\<bar>sint a\<bar> \<le> 2 ^ (LENGTH('a) - 1)"
    using sint_ge [of a] sint_lt [of a] by (simp add: abs_le_iff less_imp_le)
  also have "\<dots> \<le> 2 ^ 31" using assms by (intro power_increasing) simp_all
  finally have b: "\<bar>sint a\<bar> \<le> 2 ^ 31" .
  have "\<bar>sint a * sint a\<bar> = \<bar>sint a\<bar> * \<bar>sint a\<bar>" by (simp add: abs_mult)
  also have "\<dots> \<le> 2 ^ 31 * 2 ^ 31" using b by (intro mult_mono) simp_all
  also have "\<dots> \<le> 2 ^ 100" by simp
  finally have "\<bar>sint a * sint a\<bar> \<le> 2 ^ 100" .
  then have "real_of_int \<bar>sint a * sint a\<bar> \<le> real_of_int (2 ^ 100)" by (simp only: of_int_le_iff)
  then show ?thesis by simp
qed

lemma value_std_small_signed:
  fixes ss :: "'a::len word list"
  assumes "ss \<noteq> []" and "length ss = length ts" and "LENGTH('a) \<le> 32"
  shows "\<exists>m. compute_metrics arith_small_signed ss ts = Some m \<and>
           value_std m = raw_residual arith_small_signed ss"
proof -
  have "dmul (Fin (real_of_int (sint a))) (Fin (real_of_int (sint a))) =
      Fin (real_of_int (sint a * sint a))" for a :: "'a word"
    using sint_square_small [OF assms(3), of a] by (simp add: dmul_Fin del: of_int_sint)
  then show ?thesis
    using value_std_accumulated [OF assms(1,2), of arith_small_signed]
    by (simp add: raw_residual_def sum_of_squares_def arith_small_signed_def del: of_int_sint of_int_mult)
qed

lemma uint_square_small:
  fixes a :: "'a::len word"
  assumes "LENGTH('a) \<le> 32"
  shows "\<bar>real_of_int (uint a * uint a)\<bar> \<le> 2 ^ 100"
proof -
  have "uint a \<le> 2 ^ LENGTH('a)" using uint_bounded [of a] by (rule less_imp_le)
  also have "\<dots> \<le> 2 ^ 32" using assms by (intro power_increasing) simp_all
  finally have b: "uint a \<le> 2 ^ 32" .
  have "uint a * uint a \<le> 2 ^ 32 * 2 ^ 32" using b by (intro mult_mono) simp_all
  also have "\<dots> \<le> 2 ^ 100" by simp
  finally have "uint a * uint a \<le> 2 ^ 100" .
  moreover have "0 \<le> uint a * uint a" by simp
  ultimately have "\<bar>uint a * uint a\<bar> \<le> 2 ^ 100" by simp
  then have "real_of_int \<bar>uint a * uint a\<bar> \<le> real_of_int (2 ^ 100)" by (simp only: of_int_le_iff)
  then show ?thesis by simp
qed

lemma value_std_small_unsigned:
  fixes bs :: "'a::len word list"
  assumes "bs \<noteq> []" and "length bs = length cs" and "LENGTH('a) \<le> 32"
  shows "\<exists>m. compute_metrics arith_small_unsigned bs cs = Some m \<and>
           value_std m = raw_residual arith_small_unsigned bs"
proof -
  have "dmul (Fin (real_of_int (uint a))) (Fin (real_of_int (uint a))) =
      Fin (real_of_int (uint a * uint a))" for a :: "'a word"
    using uint_square_small [OF assms(3), of a] by (simp add: dmul_Fin del: of_int_uint)
  then show ?thesis
    using value_std_accumulated [OF assms(1,2), of arith_small_unsigned]
    by (simp add: raw_residual_def sum_of_squares_def arith_small_unsigned_def del: of_int_uint of_int_mult)
qed

text \<open>
  Claim C4. The claim says that \<open>value_std\<close> is the sum of the squared values minus the
  square of the sum of the values divided by the number of elements. On \<^verbatim>\<open>uint32_t\<close>
  data the product of line 54 is an unsigned 32-bit product and wraps around: for the
  one-element dataset 65536 it is \<open>2^32 mod 2^32 = 0\<close>, so the code returns
  \<open>0 - 65536 * 65536 / 1 = -4294967296\<close>, where the residual of the claim is
  \<open>4294967296 - 4294967296 = 0\<close> (and a residual of the second moment is never
  negative). Line 53 adds the same element to \<^verbatim>\<open>sum\<close> after its conversion to
  \<^verbatim>\<open>double\<close>.
\<close>

theorem value_std_squares_wrap:
  "map_option value_std (compute_metrics arith_unsigned [65536 :: 32 word] [65536]) =
     Some (Fin (- 4294967296)) \<and>
   raw_residual arith_unsigned [65536 :: 32 word] = Fin 0"
  by (simp add: compute_metrics_eval arith_unsigned_def double_eval raw_residual_def
      sum_of_squares_def sum_of_values_def)

text \<open>On \<^verbatim>\<open>float\<close> data the product is rounded to single precision before it is added:
  for the one-element dataset 4097 the code returns \<open>16785408 - 16785409 = -1\<close>.\<close>

lemma value_std_float_example:
  "is_single (Fin 4097) \<and>
   map_option value_std (compute_metrics arith_float [Fin 4097] [Fin 4097]) = Some (Fin (- 1)) \<and>
   raw_residual arith_float [Fin 4097] = Fin 0"
  by (simp add: compute_metrics_eval arith_float_def double_eval raw_residual_def
      sum_of_squares_def sum_of_values_def fsub_def to_single_numeral to_single_zero
      to_single_4097_squared)

subsection \<open>A dataset against a copy of itself\<close>

text \<open>Every difference is zero, so the sums of the errors and both extreme errors stay
  zero through the loop.\<close>

lemma while_loop_identical_generic:
  assumes "\<forall>z\<in>set zs. double_p A (minus_e A z z) = Fin 0"
    and "sum_of_squared_error st = Fin 0" and "sum_of_error st = Fin 0"
    and "error_min st = Fin 0" and "error_max st = Fin 0"
  shows "\<exists>st'. while_loop A st zs zs = Some st' \<and>
           sum_of_squared_error st' = Fin 0 \<and> sum_of_error st' = Fin 0 \<and>
           error_min st' = Fin 0 \<and> error_max st' = Fin 0 \<and>
           num_elements st' = num_elements st + length zs"
  using assms
proof (induction zs arbitrary: st)
  case Nil
  then show ?case by simp
next
  case (Cons z zs)
  let ?st = "loop_body A st z z"
  from Cons.prems(1) have z: "double_p A (minus_e A z z) = Fin 0"
    and zs: "\<forall>z\<in>set zs. double_p A (minus_e A z z) = Fin 0" by simp_all
  have "sum_of_squared_error ?st = Fin 0" "sum_of_error ?st = Fin 0"
    "error_min ?st = Fin 0" "error_max ?st = Fin 0"
    "num_elements ?st = Suc (num_elements st)"
    using Cons.prems(2-)
    by (simp_all add: loop_body_def Let_def z dadd_zero dmul_zero std_min_Fin std_max_Fin)
  from Cons.IH [OF zs this(1-4)] this(5) show ?case by auto
qed

lemma psnr_zero_error_positive_range:
  assumes "d = PInf \<or> (\<exists>r>0. d = Fin r)"
  shows "dmul (Fin (- 20)) (dlog10 (ddiv (dsqrt (Fin 0)) d)) = PInf"
proof -
  from assms have "ddiv (dsqrt (Fin 0)) d = Fin 0"
    by (auto simp: ddiv_def round_to_zero)
  then show ?thesis by (simp add: dmul_def signed_inf_def)
qed

lemma identical_generic:
  fixes ke :: "'e \<Rightarrow> real"
  assumes ne: "xs \<noteq> []"
    and ord: "\<And>a b. a \<in> set xs \<Longrightarrow> b \<in> set xs \<Longrightarrow> less_e A a b \<longleftrightarrow> ke a < ke b"
    and inj: "\<And>a b. a \<in> set xs \<Longrightarrow> b \<in> set xs \<Longrightarrow> ke a = ke b \<Longrightarrow> a = b"
    and zero: "\<And>a. a \<in> set xs \<Longrightarrow> double_p A (minus_e A a a) = Fin 0"
    and fin: "\<And>a. a \<in> set xs \<Longrightarrow> is_finite (double_e A a)"
    and pos: "\<And>a b. a \<in> set xs \<Longrightarrow> b \<in> set xs \<Longrightarrow> ke b < ke a \<Longrightarrow>
                double_p A (minus_e A a b) = PInf \<or> (\<exists>r>0. double_p A (minus_e A a b) = Fin r)"
  shows "\<exists>m. compute_metrics A xs xs = Some m \<and> no_error_metrics xs m"
proof -
  from ne obtain x0 xs' where xs: "xs = x0 # xs'" by (cases xs) auto
  have x0: "x0 \<in> set xs" by (simp add: xs)
  from fin [OF x0] obtain r0 where r0: "double_e A x0 = Fin r0" by (auto simp: is_finite_iff)
  let ?st0 = "init_locals A x0 x0"
  have init: "sum_of_squared_error ?st0 = Fin 0" "sum_of_error ?st0 = Fin 0"
    "error_min ?st0 = Fin 0" "error_max ?st0 = Fin 0"
    by (simp_all add: init_locals_def zero [OF x0] r0 dsub_self)
  from zero have "\<forall>z\<in>set xs. double_p A (minus_e A z z) = Fin 0" by simp
  from while_loop_identical_generic [OF this init]
  obtain st' where run: "while_loop A ?st0 xs xs = Some st'"
    and st': "sum_of_squared_error st' = Fin 0" "sum_of_error st' = Fin 0"
      "error_min st' = Fin 0" "error_max st' = Fin 0" "num_elements st' = length xs"
    by (auto simp: init_locals_def)
  have cm: "compute_metrics A xs xs = Some (finish A st')"
    using run by (simp add: compute_metrics_def xs)
  from while_loop_values_in [OF run subset_refl, of ke] x0 ord
  have mn: "value_min_acc st' \<in> set xs" and mx: "value_max_acc st' \<in> set xs"
    and kmn: "ke (value_min_acc st') = fold min (map ke xs) (ke x0)"
    and kmx: "ke (value_max_acc st') = fold max (map ke xs) (ke x0)"
    by (simp_all add: init_locals_def)
  have le: "ke (value_min_acc st') \<le> ke (value_max_acc st')"
    unfolding kmn kmx by (rule fold_min_le_fold_max) simp
  have fm: "fold min (map ke xs) (ke x0) = fold min (map ke xs') (ke x0)"
    "fold max (map ke xs) (ke x0) = fold max (map ke xs') (ke x0)"
    by (simp_all add: xs)
  have const: "ke (value_min_acc st') = ke (value_max_acc st') \<longleftrightarrow> (\<forall>x\<in>set xs. x = hd xs)"
  proof -
    have "ke (value_min_acc st') = ke (value_max_acc st') \<longleftrightarrow> (\<forall>x\<in>set xs'. ke x = ke x0)"
      unfolding kmn kmx fm fold_min_max_eq by simp
    also have "\<dots> \<longleftrightarrow> (\<forall>x\<in>set xs. x = hd xs)"
      using inj [OF _ x0] by (auto simp: xs)
    finally show ?thesis .
  qed
  let ?range = "double_p A (minus_e A (value_max_acc st') (value_min_acc st'))"
  have n: "0 < length xs" using ne by simp
  have ps: "dmul (Fin (- 20)) (dlog10 (ddiv (dsqrt (Fin 0)) ?range)) =
      (if \<forall>x\<in>set xs. x = hd xs then NaN else PInf)"
  proof (cases "\<forall>x\<in>set xs. x = hd xs")
    case True
    with const have "ke (value_min_acc st') = ke (value_max_acc st')" by simp
    from inj [OF mn mx this] zero [OF mx] have "?range = Fin 0" by simp
    with True show ?thesis by (simp add: ddiv_zero_zero dmul_NaN)
  next
    case False
    with const le have "ke (value_min_acc st') < ke (value_max_acc st')" by linarith
    from psnr_zero_error_positive_range [OF pos [OF mx mn this]] False show ?thesis
      by (simp del: dsqrt.simps)
  qed
  have "no_error_metrics xs (finish A st')"
    unfolding no_error_metrics_def
    using ps by (simp add: finish_def Let_def st' ddiv_zero_count [OF n])
  with cm show ?thesis by simp
qed

lemma identical_double:
  assumes "xs \<noteq> []" and fin: "list_all is_finite xs"
  shows "\<exists>m. compute_metrics arith_double xs xs = Some m \<and> no_error_metrics xs m"
proof (rule identical_generic [OF assms(1), of arith_double fin_value])
  fix a b assume "a \<in> set xs" "b \<in> set xs"
  with fin have "is_finite a" "is_finite b" by (simp_all add: list_all_iff)
  then obtain r s where ab: "a = Fin r" "b = Fin s" by (auto simp: is_finite_iff)
  show "less_e arith_double a b \<longleftrightarrow> fin_value a < fin_value b"
    by (simp add: ab arith_double_def)
  show "a = b" if "fin_value a = fin_value b" using that by (simp add: ab)
  show "double_p arith_double (minus_e arith_double a a) = Fin 0"
    by (simp add: ab arith_double_def dsub_self)
  show "is_finite (double_e arith_double a)" by (simp add: ab arith_double_def)
  show "double_p arith_double (minus_e arith_double a b) = PInf \<or>
      (\<exists>r>0. double_p arith_double (minus_e arith_double a b) = Fin r)"
    if "fin_value b < fin_value a"
    using that dbl_overflow_pos by (simp add: ab arith_double_def dsub_def fsub_def round_to_def)
qed

lemma identical_float:
  assumes "xs \<noteq> []" and fin: "list_all is_finite xs" and sgl: "list_all is_single xs"
  shows "\<exists>m. compute_metrics arith_float xs xs = Some m \<and> no_error_metrics xs m"
proof (rule identical_generic [OF assms(1), of arith_float fin_value])
  fix a b assume in_xs: "a \<in> set xs" "b \<in> set xs"
  with fin have "is_finite a" "is_finite b" by (simp_all add: list_all_iff)
  then obtain r s where ab: "a = Fin r" "b = Fin s" by (auto simp: is_finite_iff)
  from in_xs sgl have "is_single a" "is_single b" by (simp_all add: list_all_iff)
  then have rs: "round_single r = r" "round_single s = s"
    unfolding ab by (simp_all add: is_single_round)
  show "less_e arith_float a b \<longleftrightarrow> fin_value a < fin_value b"
    by (simp add: ab arith_float_def)
  show "a = b" if "fin_value a = fin_value b" using that by (simp add: ab)
  show "double_p arith_float (minus_e arith_float a a) = Fin 0"
    by (simp add: ab arith_float_def fsub_def to_single_zero)
  show "is_finite (double_e arith_float a)" by (simp add: ab arith_float_def)
  show "double_p arith_float (minus_e arith_float a b) = PInf \<or>
      (\<exists>r>0. double_p arith_float (minus_e arith_float a b) = Fin r)"
    if "fin_value b < fin_value a"
  proof -
    from that have "s < r" by (simp add: ab)
    from to_single_pos [OF single_values_apart [OF rs this]]
    show ?thesis by (simp add: ab arith_float_def fsub_def)
  qed
qed

lemma identical_unsigned:
  fixes us :: "'a::len word list"
  assumes "us \<noteq> []"
  shows "\<exists>m. compute_metrics arith_unsigned us us = Some m \<and> no_error_metrics us m"
proof (rule identical_generic [OF assms(1), of arith_unsigned "\<lambda>w. real (unat w)"])
  fix a b :: "'a word"
  show "less_e arith_unsigned a b \<longleftrightarrow> real (unat a) < real (unat b)"
    by (simp add: arith_unsigned_def word_less_nat_alt del: of_nat_unat)
  show "a = b" if "real (unat a) = real (unat b)"
    using that by (simp add: word_unat_eq_iff del: of_nat_unat)
  show "double_p arith_unsigned (minus_e arith_unsigned a a) = Fin 0"
    by (simp add: arith_unsigned_def)
  show "is_finite (double_e arith_unsigned a)" by (simp add: arith_unsigned_def)
  show "double_p arith_unsigned (minus_e arith_unsigned a b) = PInf \<or>
      (\<exists>r>0. double_p arith_unsigned (minus_e arith_unsigned a b) = Fin r)"
    if "real (unat b) < real (unat a)"
  proof -
    from that have "b < a" by (simp add: word_less_nat_alt del: of_nat_unat)
    then have "a - b \<noteq> 0" by simp
    then have "0 < unat (a - b)" by (simp add: unat_gt_0)
    then show ?thesis by (simp add: arith_unsigned_def del: of_nat_unat)
  qed
qed

lemma identical_small_signed:
  fixes ss :: "'a::len word list"
  assumes "ss \<noteq> []"
  shows "\<exists>m. compute_metrics arith_small_signed ss ss = Some m \<and> no_error_metrics ss m"
proof (rule identical_generic [OF assms(1), of arith_small_signed "\<lambda>w. real_of_int (sint w)"])
  fix a b :: "'a word"
  show "less_e arith_small_signed a b \<longleftrightarrow> real_of_int (sint a) < real_of_int (sint b)"
    by (simp add: arith_small_signed_def del: of_int_sint)
  show "a = b" if "real_of_int (sint a) = real_of_int (sint b)"
    using that by (simp add: signed_word_eqI del: of_int_sint)
  show "double_p arith_small_signed (minus_e arith_small_signed a a) = Fin 0"
    by (simp add: arith_small_signed_def)
  show "is_finite (double_e arith_small_signed a)" by (simp add: arith_small_signed_def)
  show "double_p arith_small_signed (minus_e arith_small_signed a b) = PInf \<or>
      (\<exists>r>0. double_p arith_small_signed (minus_e arith_small_signed a b) = Fin r)"
    if "real_of_int (sint b) < real_of_int (sint a)"
    using that by (simp add: arith_small_signed_def del: of_int_sint)
qed

lemma identical_small_unsigned:
  fixes bs :: "'a::len word list"
  assumes "bs \<noteq> []"
  shows "\<exists>m. compute_metrics arith_small_unsigned bs bs = Some m \<and> no_error_metrics bs m"
proof (rule identical_generic [OF assms(1), of arith_small_unsigned "\<lambda>w. real_of_int (uint w)"])
  fix a b :: "'a word"
  show "less_e arith_small_unsigned a b \<longleftrightarrow> real_of_int (uint a) < real_of_int (uint b)"
    by (simp add: arith_small_unsigned_def word_less_def del: of_int_uint)
  show "a = b" if "real_of_int (uint a) = real_of_int (uint b)"
    using that by (simp add: word_uint_eq_iff del: of_int_uint)
  show "double_p arith_small_unsigned (minus_e arith_small_unsigned a a) = Fin 0"
    by (simp add: arith_small_unsigned_def)
  show "is_finite (double_e arith_small_unsigned a)" by (simp add: arith_small_unsigned_def)
  show "double_p arith_small_unsigned (minus_e arith_small_unsigned a b) = PInf \<or>
      (\<exists>r>0. double_p arith_small_unsigned (minus_e arith_small_unsigned a b) = Fin r)"
    if "real_of_int (uint b) < real_of_int (uint a)"
    using that by (simp add: arith_small_unsigned_def del: of_int_uint)
qed

text \<open>
  Claim C5, as amended. A non-empty dataset is compared with a copy of itself. For
  integer data (the unsigned types that are not promoted, and the 8- and 16-bit types
  that are promoted to \<^verbatim>\<open>int\<close>) and for \<^verbatim>\<open>double\<close> and \<^verbatim>\<open>float\<close> data whose values are
  all finite, \<^verbatim>\<open>compute_metrics\<close> returns with \<open>mse\<close>, \<open>rmse\<close>, \<open>average_error\<close>,
  \<open>min_error\<close> and \<open>max_error\<close> equal to 0. The peak signal-to-noise ratio is \<open>+inf\<close>
  when the dataset holds two different values, and NaN when all its values are the
  same: \<open>value_range\<close> is then 0 and \<open>rmse / value_range\<close> is \<open>0 / 0\<close>. The values of
  a buffer of floats are floats, which \<open>is_single\<close> says of the doubles that stand for
  them.
\<close>

theorem identical_datasets_metrics:
  fixes xs fs :: "double list" and us :: "'a::len word list"
    and ss :: "'b::len word list" and bs :: "'c::len word list"
  shows
  "(xs \<noteq> [] \<and> list_all is_finite xs \<longrightarrow>
      (\<exists>m. compute_metrics arith_double xs xs = Some m \<and> no_error_metrics xs m)) \<and>
   (fs \<noteq> [] \<and> list_all is_finite fs \<and> list_all is_single fs \<longrightarrow>
      (\<exists>m. compute_metrics arith_float fs fs = Some m \<and> no_error_metrics fs m)) \<and>
   (us \<noteq> [] \<longrightarrow>
      (\<exists>m. compute_metrics arith_unsigned us us = Some m \<and> no_error_metrics us m)) \<and>
   (ss \<noteq> [] \<longrightarrow>
      (\<exists>m. compute_metrics arith_small_signed ss ss = Some m \<and> no_error_metrics ss m)) \<and>
   (bs \<noteq> [] \<longrightarrow>
      (\<exists>m. compute_metrics arith_small_unsigned bs bs = Some m \<and> no_error_metrics bs m))"
  using identical_double [of xs] identical_float [of fs] identical_unsigned [of us]
    identical_small_signed [of ss] identical_small_unsigned [of bs]
  by blast

text \<open>Two different values of each floating-point type and of \<^verbatim>\<open>int8_t\<close>, one value of
  \<^verbatim>\<open>uint32_t\<close>, and twice the same value of \<^verbatim>\<open>uint8_t\<close>.\<close>

theorem identical_datasets_metrics_witness:
  "list_all is_finite [Fin 1, Fin 2] \<and> list_all is_single [Fin 1, Fin 2] \<and>
   (\<exists>m. compute_metrics arith_double [Fin 1, Fin 2] [Fin 1, Fin 2] = Some m \<and>
      mse m = Fin 0 \<and> rmse m = Fin 0 \<and> average_error m = Fin 0 \<and>
      min_error m = Fin 0 \<and> max_error m = Fin 0 \<and> psnr m = PInf) \<and>
   (\<exists>m. compute_metrics arith_float [Fin 1, Fin 2] [Fin 1, Fin 2] = Some m \<and>
      mse m = Fin 0 \<and> rmse m = Fin 0 \<and> average_error m = Fin 0 \<and>
      min_error m = Fin 0 \<and> max_error m = Fin 0 \<and> psnr m = PInf) \<and>
   (\<exists>m. compute_metrics arith_unsigned [7 :: 32 word] [7] = Some m \<and>
      mse m = Fin 0 \<and> rmse m = Fin 0 \<and> average_error m = Fin 0 \<and>
      min_error m = Fin 0 \<and> max_error m = Fin 0 \<and> psnr m = NaN) \<and>
   (\<exists>m. compute_metrics arith_small_signed [- 1, 1 :: 8 word] [- 1, 1] = Some m \<and>
      mse m = Fin 0 \<and> rmse m = Fin 0 \<and> average_error m = Fin 0 \<and>
      min_error m = Fin 0 \<and> max_error m = Fin 0 \<and> psnr m = PInf) \<and>
   (\<exists>m. compute_metrics arith_small_unsigned [3, 3 :: 8 word] [3, 3] = Some m \<and>
      mse m = Fin 0 \<and> rmse m = Fin 0 \<and> average_error m = Fin 0 \<and>
      min_error m = Fin 0 \<and> max_error m = Fin 0 \<and> psnr m = NaN)"
proof -
  have hyps: "list_all is_finite [Fin 1, Fin 2]" "list_all is_single [Fin 1, Fin 2]"
    by (simp_all add: to_single_numeral)
  note main = identical_datasets_metrics [where xs = "[Fin 1, Fin 2]" and fs = "[Fin 1, Fin 2]"
      and us = "[7 :: 32 word]" and ss = "[- 1, 1 :: 8 word]" and bs = "[3, 3 :: 8 word]"]
  from main hyps show ?thesis
    by (simp add: no_error_metrics_def)
qed

text \<open>The claim as stated fails on the one-element dataset 1 against itself: the range
  of the values is 0, \<open>rmse / value_range\<close> is \<open>0 / 0\<close>, and \<open>psnr\<close> is NaN, not
  \<open>+inf\<close>. It fails as well on the one-element dataset \<open>+inf\<close> against itself: the
  difference is \<open>inf - inf\<close>, and \<open>mse\<close> is NaN, not 0.\<close>

theorem identical_datasets_counterexample:
  "map_option psnr (compute_metrics arith_double [Fin 1] [Fin 1]) = Some NaN \<and> NaN \<noteq> PInf \<and>
   map_option mse (compute_metrics arith_double [PInf] [PInf]) = Some NaN \<and> NaN \<noteq> Fin 0"
proof -
  have "map_option psnr (compute_metrics arith_double [Fin 1] [Fin 1]) = Some NaN"
    by (simp add: compute_metrics_eval arith_double_def double_eval ddiv_zero_zero dmul_NaN)
  moreover have "map_option mse (compute_metrics arith_double [PInf] [PInf]) = Some NaN"
    by (simp add: compute_metrics_eval arith_double_def dsub_def fsub_def dadd_def dmul_def
        ddiv_def std_min_def std_max_def)
  ultimately show ?thesis by simp
qed

subsection \<open>The dataset 1, 2, 3, 4 against 1, 2, 3, 5\<close>

text \<open>On doubles the differences are 0, 0, 0 and -1, and the metrics are those the
  specification lists.\<close>

lemma example_dataset_double:
  "\<exists>m. compute_metrics arith_double [Fin 1, Fin 2, Fin 3, Fin 4] [Fin 1, Fin 2, Fin 3, Fin 5] = Some m \<and>
       mse m = Fin (1 / 4) \<and> rmse m = Fin (1 / 2) \<and> average_error m = Fin (1 / 4) \<and>
       value_min m = Fin 1 \<and> value_max m = Fin 4 \<and> value_range m = Fin 3"
  by (simp add: compute_metrics_eval arith_double_def double_eval real_sqrt_divide)

text \<open>So they are on floats and on the 8-bit integers, whose difference is a signed
  \<^verbatim>\<open>int\<close>.\<close>

lemma example_dataset_float:
  "\<exists>m. compute_metrics arith_float [Fin 1, Fin 2, Fin 3, Fin 4] [Fin 1, Fin 2, Fin 3, Fin 5] = Some m \<and>
       mse m = Fin (1 / 4) \<and> rmse m = Fin (1 / 2) \<and> average_error m = Fin (1 / 4) \<and>
       value_min m = Fin 1 \<and> value_max m = Fin 4 \<and> value_range m = Fin 3"
  by (simp add: compute_metrics_eval arith_float_def double_eval fsub_def to_single_numeral
      to_single_zero real_sqrt_divide)

lemma example_dataset_int8:
  "\<exists>m. compute_metrics arith_small_signed [1, 2, 3, 4 :: 8 word] [1, 2, 3, 5] = Some m \<and>
       mse m = Fin (1 / 4) \<and> rmse m = Fin (1 / 2) \<and> average_error m = Fin (1 / 4) \<and>
       value_min m = Fin 1 \<and> value_max m = Fin 4 \<and> value_range m = Fin 3"
  by (simp add: compute_metrics_eval arith_small_signed_def double_eval real_sqrt_divide)

lemma example_dataset_uint8:
  "\<exists>m. compute_metrics arith_small_unsigned [1, 2, 3, 4 :: 8 word] [1, 2, 3, 5] = Some m \<and>
       mse m = Fin (1 / 4) \<and> rmse m = Fin (1 / 2) \<and> average_error m = Fin (1 / 4) \<and>
       value_min m = Fin 1 \<and> value_max m = Fin 4 \<and> value_range m = Fin 3"
  by (simp add: compute_metrics_eval arith_small_unsigned_def double_eval real_sqrt_divide)

lemma unat_minus_one_32: "unat (- 1 :: 32 word) = 4294967295"
  by (simp add: unsigned_minus_1_eq_mask mask_eq_exp_minus_1)

lemma real_unsigned_minus_one_32: "(unsigned (- 1 :: 32 word) :: real) = 4294967295"
proof -
  have "(unsigned (- 1 :: 32 word) :: real) = real (unat (- 1 :: 32 word))" by simp
  also have "\<dots> = 4294967295" by (simp only: unat_minus_one_32 of_nat_numeral)
  finally show ?thesis .
qed

text \<open>
  Claim C6. The claim gives \<open>mse = 0.25\<close>, \<open>rmse = 0.5\<close> and \<open>average_error = 0.25\<close>
  for the dataset 1, 2, 3, 4 against 1, 2, 3, 5. When the elements are \<^verbatim>\<open>uint32_t\<close>,
  line 49 subtracts in the unsigned element type: \<open>4 - 5\<close> wraps around to
  \<open>4294967295\<close>, which is then taken as the error of the last element, and the three
  metrics are \<open>4294967295^2 / 4\<close>, \<open>4294967295 / 2\<close> and \<open>4294967295 / 4\<close>.
\<close>

theorem example_dataset_uint32_wraps:
  "map_option mse (compute_metrics arith_unsigned [1, 2, 3, 4 :: 32 word] [1, 2, 3, 5]) =
     Some (Fin (4294967295\<^sup>2 / 4)) \<and>
   map_option rmse (compute_metrics arith_unsigned [1, 2, 3, 4 :: 32 word] [1, 2, 3, 5]) =
     Some (Fin (4294967295 / 2)) \<and>
   map_option average_error (compute_metrics arith_unsigned [1, 2, 3, 4 :: 32 word] [1, 2, 3, 5]) =
     Some (Fin (4294967295 / 4)) \<and>
   map_option value_range (compute_metrics arith_unsigned [1, 2, 3, 4 :: 32 word] [1, 2, 3, 5]) =
     Some (Fin 3)"
  by (simp add: compute_metrics_eval arith_unsigned_def double_eval real_sqrt_divide
      real_unsigned_minus_one_32 real_sqrt_mult)

subsection \<open>The three ranges\<close>

text \<open>Each range is a maximum minus a minimum. For each element type the three facts of
  the loop above give: the range of the values is not negative when \<^verbatim>\<open>operator<\<close> orders
  the values, and the two other ranges are not negative when it orders the differences.
  Integers are always ordered; floating-point numbers are when they are finite.\<close>

lemma ranges_double:
  assumes "xs \<noteq> []" and "length xs = length ys"
  shows "\<exists>m. compute_metrics arith_double xs ys = Some m \<and>
           (list_all is_finite xs \<longrightarrow> dge (value_range m) (Fin 0)) \<and>
           (list_all2 (\<lambda>x y. is_finite (dsub x y)) xs ys \<longrightarrow>
              dge (difference_range m) (Fin 0) \<and> dge (error_range m) (Fin 0))"
proof -
  from compute_metrics_returns [OF assms] obtain m
    where cm: "compute_metrics arith_double xs ys = Some m" ..
  have v: "dge (value_range m) (Fin 0)" if fin: "list_all is_finite xs"
  proof (rule value_range_generic [OF cm, of fin_value])
    fix a b assume "a \<in> set xs" "b \<in> set xs"
    with fin have "is_finite a" "is_finite b" by (simp_all add: list_all_iff)
    then obtain r s where ab: "a = Fin r" "b = Fin s" by (auto simp: is_finite_iff)
    show "less_e arith_double a b \<longleftrightarrow> fin_value a < fin_value b"
      by (simp add: ab arith_double_def)
    show "dge (double_p arith_double (minus_e arith_double a b)) (Fin 0)"
      if "fin_value b \<le> fin_value a"
      using that by (simp add: ab arith_double_def dsub_def fsub_def dge_round_to)
  qed
  have d: "dge (difference_range m) (Fin 0) \<and> dge (error_range m) (Fin 0)"
    if fin: "list_all2 (\<lambda>x y. is_finite (dsub x y)) xs ys"
  proof
    show "dge (difference_range m) (Fin 0)"
    proof (rule difference_range_generic [OF cm assms(2), of "Collect is_finite" fin_value])
      show "list_all2 (\<lambda>x y. minus_e arith_double x y \<in> Collect is_finite) xs ys"
        using fin by (simp add: arith_double_def)
      fix p q assume "p \<in> Collect is_finite" "q \<in> Collect is_finite"
      then obtain r s where pq: "p = Fin r" "q = Fin s" by (auto simp: is_finite_iff)
      show "less_p arith_double p q \<longleftrightarrow> fin_value p < fin_value q"
        by (simp add: pq arith_double_def)
      show "dge (double_p arith_double (minus_p arith_double p q)) (Fin 0)"
        if "fin_value q \<le> fin_value p"
        using that by (simp add: pq arith_double_def dsub_def fsub_def dge_round_to)
    qed
    show "dge (error_range m) (Fin 0)"
      by (rule error_range_generic [OF cm assms(2)]) (use fin in \<open>simp add: arith_double_def\<close>)
  qed
  from cm v d show ?thesis by simp
qed

lemma ranges_float:
  assumes "xs \<noteq> []" and "length xs = length ys"
  shows "\<exists>m. compute_metrics arith_float xs ys = Some m \<and>
           (list_all is_finite xs \<longrightarrow> dge (value_range m) (Fin 0)) \<and>
           (list_all2 (\<lambda>x y. is_finite (fsub to_single x y)) xs ys \<longrightarrow>
              dge (difference_range m) (Fin 0) \<and> dge (error_range m) (Fin 0))"
proof -
  from compute_metrics_returns [OF assms] obtain m
    where cm: "compute_metrics arith_float xs ys = Some m" ..
  have v: "dge (value_range m) (Fin 0)" if fin: "list_all is_finite xs"
  proof (rule value_range_generic [OF cm, of fin_value])
    fix a b assume "a \<in> set xs" "b \<in> set xs"
    with fin have "is_finite a" "is_finite b" by (simp_all add: list_all_iff)
    then obtain r s where ab: "a = Fin r" "b = Fin s" by (auto simp: is_finite_iff)
    show "less_e arith_float a b \<longleftrightarrow> fin_value a < fin_value b"
      by (simp add: ab arith_float_def)
    show "dge (double_p arith_float (minus_e arith_float a b)) (Fin 0)"
      if "fin_value b \<le> fin_value a"
      using that by (simp add: ab arith_float_def fsub_def dge_to_single)
  qed
  have d: "dge (difference_range m) (Fin 0) \<and> dge (error_range m) (Fin 0)"
    if fin: "list_all2 (\<lambda>x y. is_finite (fsub to_single x y)) xs ys"
  proof
    show "dge (difference_range m) (Fin 0)"
    proof (rule difference_range_generic [OF cm assms(2), of "Collect is_finite" fin_value])
      show "list_all2 (\<lambda>x y. minus_e arith_float x y \<in> Collect is_finite) xs ys"
        using fin by (simp add: arith_float_def)
      fix p q assume "p \<in> Collect is_finite" "q \<in> Collect is_finite"
      then obtain r s where pq: "p = Fin r" "q = Fin s" by (auto simp: is_finite_iff)
      show "less_p arith_float p q \<longleftrightarrow> fin_value p < fin_value q"
        by (simp add: pq arith_float_def)
      show "dge (double_p arith_float (minus_p arith_float p q)) (Fin 0)"
        if "fin_value q \<le> fin_value p"
        using that by (simp add: pq arith_float_def fsub_def dge_to_single)
    qed
    show "dge (error_range m) (Fin 0)"
      by (rule error_range_generic [OF cm assms(2)]) (use fin in \<open>simp add: arith_float_def\<close>)
  qed
  from cm v d show ?thesis by simp
qed

lemma ranges_unsigned:
  fixes us :: "'a::len word list"
  assumes "us \<noteq> []" and "length us = length vs"
  shows "\<exists>m. compute_metrics arith_unsigned us vs = Some m \<and>
           dge (value_range m) (Fin 0) \<and> dge (difference_range m) (Fin 0) \<and>
           dge (error_range m) (Fin 0)"
proof -
  from compute_metrics_returns [OF assms] obtain m
    where cm: "compute_metrics arith_unsigned us vs = Some m" ..
  have "dge (value_range m) (Fin 0)"
    by (rule value_range_generic [OF cm, of "\<lambda>w. real (unat w)"])
      (simp_all add: arith_unsigned_def dge_Fin word_less_nat_alt del: of_nat_unat)
  moreover have "dge (difference_range m) (Fin 0)"
    by (rule difference_range_generic [OF cm assms(2), of UNIV "\<lambda>w. real (unat w)"])
      (simp_all add: arith_unsigned_def dge_Fin word_less_nat_alt list_all2_conv_all_nth assms(2)
        del: of_nat_unat)
  moreover have "dge (error_range m) (Fin 0)"
    by (rule error_range_generic [OF cm assms(2)])
      (simp add: arith_unsigned_def list_all2_conv_all_nth assms(2))
  ultimately show ?thesis using cm by simp
qed

lemma ranges_small_signed:
  fixes ss :: "'a::len word list"
  assumes "ss \<noteq> []" and "length ss = length ts"
  shows "\<exists>m. compute_metrics arith_small_signed ss ts = Some m \<and>
           dge (value_range m) (Fin 0) \<and> dge (difference_range m) (Fin 0) \<and>
           dge (error_range m) (Fin 0)"
proof -
  from compute_metrics_returns [OF assms] obtain m
    where cm: "compute_metrics arith_small_signed ss ts = Some m" ..
  have "dge (value_range m) (Fin 0)"
    by (rule value_range_generic [OF cm, of "\<lambda>w. real_of_int (sint w)"])
      (simp_all add: arith_small_signed_def dge_Fin del: of_int_sint)
  moreover have "dge (difference_range m) (Fin 0)"
    by (rule difference_range_generic [OF cm assms(2), of UNIV real_of_int])
      (simp_all add: arith_small_signed_def dge_Fin list_all2_conv_all_nth assms(2))
  moreover have "dge (error_range m) (Fin 0)"
    by (rule error_range_generic [OF cm assms(2)])
      (simp add: arith_small_signed_def list_all2_conv_all_nth assms(2))
  ultimately show ?thesis using cm by simp
qed

lemma ranges_small_unsigned:
  fixes bs :: "'a::len word list"
  assumes "bs \<noteq> []" and "length bs = length cs"
  shows "\<exists>m. compute_metrics arith_small_unsigned bs cs = Some m \<and>
           dge (value_range m) (Fin 0) \<and> dge (difference_range m) (Fin 0) \<and>
           dge (error_range m) (Fin 0)"
proof -
  from compute_metrics_returns [OF assms] obtain m
    where cm: "compute_metrics arith_small_unsigned bs cs = Some m" ..
  have "dge (value_range m) (Fin 0)"
    by (rule value_range_generic [OF cm, of "\<lambda>w. real_of_int (uint w)"])
      (simp_all add: arith_small_unsigned_def dge_Fin word_less_def del: of_int_uint)
  moreover have "dge (difference_range m) (Fin 0)"
    by (rule difference_range_generic [OF cm assms(2), of UNIV real_of_int])
      (simp_all add: arith_small_unsigned_def dge_Fin list_all2_conv_all_nth assms(2))
  moreover have "dge (error_range m) (Fin 0)"
    by (rule error_range_generic [OF cm assms(2)])
      (simp add: arith_small_unsigned_def list_all2_conv_all_nth assms(2))
  ultimately show ?thesis using cm by simp
qed

text \<open>
  Claim C7, as amended. For every pair of non-empty datasets of equal length
  \<^verbatim>\<open>compute_metrics\<close> returns, and: on integer data (the unsigned types that are not
  promoted, and the 8- and 16-bit types that are promoted to \<^verbatim>\<open>int\<close>) \<open>value_range\<close>,
  \<open>difference_range\<close> and \<open>error_range\<close> are greater than or equal to 0; on
  \<^verbatim>\<open>double\<close> and \<^verbatim>\<open>float\<close> data \<open>value_range\<close> is greater than or equal to 0 when every
  original value is finite, and \<open>difference_range\<close> and \<open>error_range\<close> are when every
  difference of an original and its reconstructed value, as the element type computes
  it, is finite.
\<close>

theorem ranges_nonnegative:
  fixes xs ys fs gs :: "double list" and us vs :: "'a::len word list"
    and ss ts :: "'b::len word list" and bs cs :: "'c::len word list"
  shows
  "(xs \<noteq> [] \<and> length xs = length ys \<longrightarrow>
      (\<exists>m. compute_metrics arith_double xs ys = Some m \<and>
         (list_all is_finite xs \<longrightarrow> dge (value_range m) (Fin 0)) \<and>
         (list_all2 (\<lambda>x y. is_finite (dsub x y)) xs ys \<longrightarrow>
            dge (difference_range m) (Fin 0) \<and> dge (error_range m) (Fin 0)))) \<and>
   (fs \<noteq> [] \<and> length fs = length gs \<longrightarrow>
      (\<exists>m. compute_metrics arith_float fs gs = Some m \<and>
         (list_all is_finite fs \<longrightarrow> dge (value_range m) (Fin 0)) \<and>
         (list_all2 (\<lambda>x y. is_finite (fsub to_single x y)) fs gs \<longrightarrow>
            dge (difference_range m) (Fin 0) \<and> dge (error_range m) (Fin 0)))) \<and>
   (us \<noteq> [] \<and> length us = length vs \<longrightarrow>
      (\<exists>m. compute_metrics arith_unsigned us vs = Some m \<and>
         dge (value_range m) (Fin 0) \<and> dge (difference_range m) (Fin 0) \<and>
         dge (error_range m) (Fin 0))) \<and>
   (ss \<noteq> [] \<and> length ss = length ts \<longrightarrow>
      (\<exists>m. compute_metrics arith_small_signed ss ts = Some m \<and>
         dge (value_range m) (Fin 0) \<and> dge (difference_range m) (Fin 0) \<and>
         dge (error_range m) (Fin 0))) \<and>
   (bs \<noteq> [] \<and> length bs = length cs \<longrightarrow>
      (\<exists>m. compute_metrics arith_small_unsigned bs cs = Some m \<and>
         dge (value_range m) (Fin 0) \<and> dge (difference_range m) (Fin 0) \<and>
         dge (error_range m) (Fin 0)))"
  using ranges_double [of xs ys] ranges_float [of fs gs] ranges_unsigned [of us vs]
    ranges_small_signed [of ss ts] ranges_small_unsigned [of bs cs]
  by blast

text \<open>The values 1 and 4 against 2 and 2, in five element types.\<close>

theorem ranges_nonnegative_witness:
  "list_all is_finite [Fin 1, Fin 4] \<and>
   list_all2 (\<lambda>x y. is_finite (dsub x y)) [Fin 1, Fin 4] [Fin 2, Fin 2] \<and>
   list_all2 (\<lambda>x y. is_finite (fsub to_single x y)) [Fin 1, Fin 4] [Fin 2, Fin 2] \<and>
   (\<exists>m. compute_metrics arith_double [Fin 1, Fin 4] [Fin 2, Fin 2] = Some m \<and>
      dge (value_range m) (Fin 0) \<and> dge (difference_range m) (Fin 0) \<and>
      dge (error_range m) (Fin 0)) \<and>
   (\<exists>m. compute_metrics arith_float [Fin 1, Fin 4] [Fin 2, Fin 2] = Some m \<and>
      dge (value_range m) (Fin 0) \<and> dge (difference_range m) (Fin 0) \<and>
      dge (error_range m) (Fin 0)) \<and>
   (\<exists>m. compute_metrics arith_unsigned [1, 4 :: 32 word] [2, 2] = Some m \<and>
      dge (value_range m) (Fin 0) \<and> dge (difference_range m) (Fin 0) \<and>
      dge (error_range m) (Fin 0)) \<and>
   (\<exists>m. compute_metrics arith_small_signed [1, 4 :: 8 word] [2, 2] = Some m \<and>
      dge (value_range m) (Fin 0) \<and> dge (difference_range m) (Fin 0) \<and>
      dge (error_range m) (Fin 0)) \<and>
   (\<exists>m. compute_metrics arith_small_unsigned [1, 4 :: 8 word] [2, 2] = Some m \<and>
      dge (value_range m) (Fin 0) \<and> dge (difference_range m) (Fin 0) \<and>
      dge (error_range m) (Fin 0))"
proof -
  have hyps: "list_all is_finite [Fin 1, Fin 4]"
    "list_all2 (\<lambda>x y. is_finite (dsub x y)) [Fin 1, Fin 4] [Fin 2, Fin 2]"
    "list_all2 (\<lambda>x y. is_finite (fsub to_single x y)) [Fin 1, Fin 4] [Fin 2, Fin 2]"
    by (simp_all add: dsub_Fin fsub_def to_single_numeral)
  note main = ranges_nonnegative [where xs = "[Fin 1, Fin 4]" and ys = "[Fin 2, Fin 2]"
      and fs = "[Fin 1, Fin 4]" and gs = "[Fin 2, Fin 2]"
      and us = "[1, 4 :: 32 word]" and vs = "[2, 2]"
      and ss = "[1, 4 :: 8 word]" and ts = "[2, 2]"
      and bs = "[1, 4 :: 8 word]" and cs = "[2, 2]"]
  from main hyps show ?thesis by simp
qed

text \<open>The claim as stated fails on the one-element dataset \<open>+inf\<close> against 0: the
  minimum and the maximum of the values are both \<open>+inf\<close>, so are those of the
  differences and of the errors, and each range is \<open>inf - inf\<close>, which is NaN and not
  greater than or equal to 0.\<close>

theorem ranges_nonnegative_counterexample:
  "map_option value_range (compute_metrics arith_double [PInf] [Fin 0]) = Some NaN \<and>
   map_option difference_range (compute_metrics arith_double [PInf] [Fin 0]) = Some NaN \<and>
   map_option error_range (compute_metrics arith_double [PInf] [Fin 0]) = Some NaN \<and>
   \<not> dge NaN (Fin 0)"
  by (simp add: compute_metrics_eval arith_double_def dsub_def fsub_def dge_def std_min_def
      std_max_def)

text \<open>Finite values are not enough for the last two ranges: the difference of
  \<open>2^1023\<close> and \<open>-2^1023\<close> overflows to \<open>+inf\<close>.\<close>

lemma ranges_overflow_example:
  "map_option difference_range
     (compute_metrics arith_double [Fin (2 ^ 1023)] [Fin (- (2 ^ 1023))]) = Some NaN \<and>
   map_option error_range
     (compute_metrics arith_double [Fin (2 ^ 1023)] [Fin (- (2 ^ 1023))]) = Some NaN"
proof -
  have "dsub (Fin (2 ^ 1023)) (Fin (- (2 ^ 1023))) = PInf"
    by (simp add: dsub_def fsub_def round_to_def dbl_overflow_def)
  then show ?thesis
    by (simp add: compute_metrics_eval arith_double_def std_min_def std_max_def)
      (simp add: dsub_def fsub_def)
qed

section \<open>The results of the error statistics plugin\<close>

lemma stat_session_metrics:
  "stat_session each st0 calls = Some st \<Longrightarrow>
     (err_metrics st = None) = (err_metrics st0 = None \<and> list_all is_begin calls)"
proof (induction each st0 calls rule: stat_session.induct)
  case (1 each st)
  then show ?case by simp
next
  case (2 each st d cs)
  then show ?case by (simp add: stat_begin_compress_def)
next
  case (3 each st d cs)
  then show ?case by (auto simp: stat_end_decompress_def split: option.splits)
qed

lemma error_stat_keys_distinct: "distinct error_stat_keys \<and> length error_stat_keys = 16"
  by (simp add: error_stat_keys_def)

text \<open>
  Claim C10. In every state of the plugin, \<^verbatim>\<open>get_metrics_results\<close> returns a result
  set whose keys are exactly the sixteen \<open>error_stat:\<close> names. When the plugin holds no
  metrics, each of them is a double without a value; when it holds metrics, each is the
  double of the corresponding field. A new plugin holds no metrics, \<^verbatim>\<open>begin_compress\<close>
  leaves that as it is, and a call of \<^verbatim>\<open>end_decompress\<close> that returns stores the
  metrics it computed from the captured input and the output: so a plugin holds no
  metrics exactly as long as its session had no \<^verbatim>\<open>end_decompress\<close> call.
\<close>

theorem error_stat_results_in_every_state:
  "dom (stat_get_metrics_results st) = set error_stat_keys \<and>
   (err_metrics st = None \<longrightarrow>
      map (stat_get_metrics_results st) error_stat_keys =
        replicate 16 (Some (option_double None))) \<and>
   (\<forall>m. err_metrics st = Some m \<longrightarrow>
      map (stat_get_metrics_results st) error_stat_keys =
        map (\<lambda>v. Some (option_double (Some v))) (metric_values m)) \<and>
   err_metrics (error_stat_new d0 :: 'd error_stat_plugin) = None \<and>
   err_metrics (stat_begin_compress d st) = err_metrics st \<and>
   (\<forall>st'. stat_end_decompress each d st = Some st' \<longrightarrow>
      err_metrics st' = each (stat_input_data st) d \<and> err_metrics st' \<noteq> None) \<and>
   (\<forall>calls st'. stat_session each (error_stat_new d0) calls = Some st' \<longrightarrow>
      (err_metrics st' = None) = list_all is_begin calls)"
proof -
  have 1: "dom (stat_get_metrics_results st) = set error_stat_keys"
    by (cases "err_metrics st")
      (auto simp: stat_get_metrics_results_def error_stat_keys_def options_set_def
        options_set_type_def Let_def split: if_splits)
  have 2: "map (stat_get_metrics_results st) error_stat_keys = replicate 16 (Some (option_double None))"
    if "err_metrics st = None"
    using that
    by (simp add: stat_get_metrics_results_def error_stat_keys_def options_set_type_def Let_def
        eval_nat_numeral)
  have 3: "map (stat_get_metrics_results st) error_stat_keys =
        map (\<lambda>v. Some (option_double (Some v))) (metric_values m)"
    if "err_metrics st = Some m" for m
    using that
    by (simp add: stat_get_metrics_results_def error_stat_keys_def options_set_def Let_def
        metric_values_def)
  have 4: "err_metrics st' = each (stat_input_data st) d \<and> err_metrics st' \<noteq> None"
    if "stat_end_decompress each d st = Some st'" for st'
    using that by (auto simp: stat_end_decompress_def)
  have 5: "(err_metrics st' = None) = list_all is_begin calls"
    if "stat_session each (error_stat_new d0) calls = Some st'" for calls st'
    using stat_session_metrics [OF that] by (simp add: error_stat_new_def)
  have 6: "err_metrics (error_stat_new d0 :: 'd error_stat_plugin) = None"
    "err_metrics (stat_begin_compress d st) = err_metrics st"
    by (simp_all add: error_stat_new_def stat_begin_compress_def)
  show ?thesis
    by (intro conjI allI impI) (fact 1, erule 2, erule 3, (rule 6)+, (erule 4 [THEN conjunct1]),
        (erule 4 [THEN conjunct2]), erule 5)
qed

text \<open>A new plugin shows sixteen doubles without values. After a session that
  captures 1, 2, 3, 4 and ends on 1, 2, 3, 5, the plugin holds metrics, and the entry
  \<open>error_stat:mse\<close> is their \<open>mse\<close>, 0.25.\<close>

theorem error_stat_results_in_every_state_witness:
  "err_metrics (error_stat_new [] :: double list error_stat_plugin) = None \<and>
   map (stat_get_metrics_results (error_stat_new [] :: double list error_stat_plugin))
     error_stat_keys = replicate 16 (Some (option_double None)) \<and>
   (\<exists>st'. stat_session (compute_metrics arith_double) (error_stat_new [])
            [Begin_compress [Fin 1, Fin 2, Fin 3, Fin 4],
             End_decompress [Fin 1, Fin 2, Fin 3, Fin 5]] = Some st' \<and>
          err_metrics st' \<noteq> None \<and>
          dom (stat_get_metrics_results st') = set error_stat_keys \<and>
          stat_get_metrics_results st' ''error_stat:mse'' = Some (option_double (Some (Fin (1 / 4)))))"
proof -
  let ?new = "error_stat_new [] :: double list error_stat_plugin"
  let ?xs = "[Fin 1, Fin 2, Fin 3, Fin 4]" and ?ys = "[Fin 1, Fin 2, Fin 3, Fin 5]"
  from example_dataset_double obtain m
    where m: "compute_metrics arith_double ?xs ?ys = Some m" and mse: "mse m = Fin (1 / 4)"
    by blast
  let ?st = "\<lparr> stat_input_data = ?xs, err_metrics = Some m \<rparr>"
  have run: "stat_session (compute_metrics arith_double) ?new
      [Begin_compress ?xs, End_decompress ?ys] = Some ?st"
    by (simp add: error_stat_new_def stat_begin_compress_def stat_end_decompress_def m)
  note new = error_stat_results_in_every_state [of ?new "[]" "[]" "compute_metrics arith_double"]
  note st = error_stat_results_in_every_state [of ?st "[]" "[]" "compute_metrics arith_double"]
  from new have a: "err_metrics ?new = None"
    and b: "map (stat_get_metrics_results ?new) error_stat_keys =
        replicate 16 (Some (option_double None))"
    by simp_all
  from st have c: "dom (stat_get_metrics_results ?st) = set error_stat_keys"
    and d: "map (stat_get_metrics_results ?st) error_stat_keys =
        map (\<lambda>v. Some (option_double (Some v))) (metric_values m)"
    by simp_all
  from arg_cong [OF d, of "\<lambda>l. l ! 1"]
  have e: "stat_get_metrics_results ?st ''error_stat:mse'' = Some (option_double (Some (Fin (1 / 4))))"
    by (simp add: error_stat_keys_def metric_values_def mse)
  from a b c e run show ?thesis by auto
qed

section \<open>The results of the external metrics plugin\<close>

lemmas text_eval = getline_def find_eq_def stoull_def isspace_def isdigit_def decimal_value_def
  digit_value_def line_name_def line_value_s_def stod_table_def Let_def

subsection \<open>The first line\<close>

text \<open>\<^verbatim>\<open>api_version_number\<close> compares the line up to and including its first \<open>=\<close> with
  \<open>external:api\<close>, which has no \<open>=\<close>: the test never holds, and the function always
  reads the version with \<^verbatim>\<open>std::stoull\<close> from what follows the first \<open>=\<close>, or from the
  whole line when it has none.\<close>

lemma takeWhile_stops:
  "c \<in> set xs \<Longrightarrow>
     length (takeWhile (\<lambda>x. x \<noteq> c) xs) < length xs \<and> xs ! length (takeWhile (\<lambda>x. x \<noteq> c) xs) = c"
  by (induction xs) auto

lemma find_eq_Some: "find_eq line = Some i \<Longrightarrow> i < length line \<and> line ! i = CHR ''=''"
  using takeWhile_stops [of "CHR ''=''" line] by (auto simp: find_eq_def split: if_splits)

lemma api_prefix_test_never_holds:
  "take (case find_eq line of None \<Rightarrow> 0 | Some i \<Rightarrow> i + 1) line \<noteq> ''external:api''"
proof (cases "find_eq line")
  case None
  then show ?thesis by simp
next
  case (Some i)
  from find_eq_Some [OF Some] have i: "i < length line" "line ! i = CHR ''=''" by simp_all
  show ?thesis
  proof
    assume eq: "take (case find_eq line of None \<Rightarrow> 0 | Some i \<Rightarrow> i + 1) line = ''external:api''"
    then have t: "take (i + 1) line = ''external:api''" by (simp add: Some)
    then have "length (take (i + 1) line) = 12" by simp
    with i have "i = 11" by simp
    with t have "take 12 line ! 11 = ''external:api'' ! 11" by simp
    with i \<open>i = 11\<close> show False by simp
  qed
qed

lemma api_version_number_is_stoull:
  "fst (api_version_number out) =
     (let version_line = (case getline out of None \<Rightarrow> [] | Some (line, rest) \<Rightarrow> line)
      in stoull (drop (case find_eq version_line of None \<Rightarrow> 0 | Some i \<Rightarrow> i + 1) version_line))"
  by (cases "getline out") (auto simp: api_version_number_def Let_def api_prefix_test_never_holds)

lemma api_line_accepted: "fst (api_version_number ''external:api=1'') = Inr 1"
  by (simp add: api_version_number_def text_eval)

lemma other_version_rejected:
  "parse_result stod res
     \<lparr> proc_stdout = ''external:api=2'', proc_stderr = ''boom'', return_code = 3, error_code = 0 \<rparr> =
     format_error_results"
  by (simp add: parse_result_def api_version_number_def text_eval report_format_error_def
      format_error_results_def options_set_def options_clear_def)

text \<open>
  Claim C1. The claim says that a stdout whose first line is not
  \<open>external:api=1\<close> yields \<^verbatim>\<open>format_error\<close>. The stdout \<open>foo=1\<close> has another first
  line, and yet it is read as version 1: the result set afterwards is that of a
  successful parse, with \<open>external:error_code\<close> equal to the exit code of the process
  (here 3) and the captured stderr.
\<close>

theorem first_line_is_not_checked:
  "fst (api_version_number ''foo=1'') = Inr 1 \<and>
   parse_result stod res
     \<lparr> proc_stdout = ''foo=1'', proc_stderr = ''boom'', return_code = 3, error_code = 0 \<rparr> =
     [''external:stderr'' \<mapsto> option_charptr (Some ''boom''),
      ''external:return_code'' \<mapsto> option_int32 (Some 3),
      ''external:error_code'' \<mapsto> option_int32 (Some 3)]"
  by (simp add: parse_result_def api_version_number_def text_eval parse_v1_def
      parse_v1_loop.simps options_set_def options_clear_def)

subsection \<open>A stdout that is not accepted\<close>

text \<open>\<^verbatim>\<open>parse_result\<close> is a function of the model: the exceptions of the parsers are
  values it consumes, none leaves it. It has two outcomes. Either it leaves the three
  entries of a format error, whatever the result set held before and whatever the
  process returned; or the first line was read as version 1, \<^verbatim>\<open>parse_v1\<close> went through
  without an exception, and the result set is the one \<^verbatim>\<open>parse_v1\<close> built.\<close>

lemma report_format_error_eq: "report_format_error m = format_error_results"
  by (simp add: report_format_error_def format_error_results_def options_set_def
      options_clear_def Let_def)

lemma parse_result_cases:
  "parse_result stod res r = format_error_results \<or>
   (\<exists>rest. api_version_number (proc_stdout r) = (Inr 1, rest) \<and>
      parse_v1 stod rest r res = (parse_result stod res r, None))"
  by (auto simp: parse_result_def report_format_error_eq split: prod.splits sum.splits option.splits)

text \<open>The stdout \<open>garbage\<close> has no digits to read a version from; the result set before
  the call holds an entry, and the process exited with 3.\<close>

lemma garbage_is_rejected:
  "parse_result (stod_table []) [''external:results:old'' \<mapsto> option_double (Some (Fin 1))]
     \<lparr> proc_stdout = ''garbage'', proc_stderr = ''boom'', return_code = 3, error_code = 0 \<rparr> =
     format_error_results"
  by (simp add: parse_result_def api_version_number_def text_eval report_format_error_eq)

text \<open>When \<^verbatim>\<open>std::stod\<close> throws on a later line, the entries of the lines before are
  discarded as well.\<close>

lemma parse_failure_discards_stored_entries:
  "parse_result (stod_table [(''1.5'', 3 / 2)]) Map.empty
     \<lparr> proc_stdout = ''external:api=1\<newline>foo=1.5\<newline>bar=oops\<newline>'', proc_stderr = ''log'',
       return_code = 0, error_code = 0 \<rparr> = format_error_results"
  by (simp add: parse_result_def api_version_number_def text_eval parse_v1_def
      parse_v1_loop.simps options_set_def options_clear_def report_format_error_def
      format_error_results_def)

text \<open>
  Claim C3. The claim says that every stdout that fails to parse under the wire protocol
  leaves, in place of the prior result set, a result set whose error code is that of
  \<^verbatim>\<open>format_error\<close>, whatever the exit code of the process. The stdout made of the lines
  \<open>ratio=1\<close> and \<open>speed=2.5\<close> has no version line: its first line is not
  \<open>external:api=1\<close>. Because of the test of \<^verbatim>\<open>api_version_number\<close> that never holds
  (see \<open>api_prefix_test_never_holds\<close> above), the line \<open>ratio=1\<close> is taken for the
  version line and the digit after its \<open>=\<close> for the version 1. The rest is parsed as
  version 1: the result set afterwards holds the entry of the line \<open>speed=2.5\<close>, the
  captured stderr and, as its error code, the exit code 7 of the process, where the
  code of \<^verbatim>\<open>format_error\<close> is 4.
\<close>

theorem malformed_stdout_is_accepted:
  "first_line ''ratio=1\<newline>speed=2.5\<newline>'' = ''ratio=1'' \<and>
   parse_result (stod_table [(''2.5'', 5 / 2)])
     [''external:results:old'' \<mapsto> option_double (Some (Fin 1))]
     \<lparr> proc_stdout = ''ratio=1\<newline>speed=2.5\<newline>'', proc_stderr = ''boom'',
       return_code = 7, error_code = 0 \<rparr> =
     [''external:results:speed'' \<mapsto> option_double (Some (Fin (5 / 2))),
      ''external:stderr'' \<mapsto> option_charptr (Some ''boom''),
      ''external:return_code'' \<mapsto> option_int32 (Some 7),
      ''external:error_code'' \<mapsto> option_int32 (Some 7)] \<and>
   error_code_int format_error = 4"
  by (simp add: first_line_def parse_result_def api_version_number_def text_eval parse_v1_def
      parse_v1_loop.simps options_set_def options_clear_def)

subsection \<open>A stdout that parses\<close>

text \<open>\<^verbatim>\<open>results.set\<close> line after line: an entry holds what the last line with its key
  stored.\<close>

lemma foldl_update_lookup:
  "foldl (\<lambda>m l. options_set m (key l) (val l)) m ls k =
     (if list_ex (\<lambda>l. key l = k) ls then Some (val (last (filter (\<lambda>l. key l = k) ls))) else m k)"
  by (induction ls rule: rev_induct) (auto simp: options_set_def list_ex_iff)

lemma foldl_update_dom:
  "dom (foldl (\<lambda>m l. options_set m (key l) (val l)) m ls) = dom m \<union> key ` set ls"
  by (induction ls arbitrary: m) (auto simp: options_set_def)

lemma foldl_update_last:
  assumes "k \<notin> key ` set after" and "key e = k"
  shows "foldl (\<lambda>m l. options_set m (key l) (val l)) m (before @ e # after) k = Some (val e)"
proof -
  let ?f = "\<lambda>m l. options_set m (key l) (val l)"
  from assms(1) have "\<not> list_ex (\<lambda>l. key l = k) after" by (auto simp: list_ex_iff)
  then have "foldl ?f (?f (foldl ?f m before) e) after k = ?f (foldl ?f m before) e k"
    by (simp only: foldl_update_lookup if_False)
  then show ?thesis using assms(2) by (simp add: options_set_def)
qed

lemma takeWhile_until:
  "c \<notin> set l \<Longrightarrow> takeWhile (\<lambda>x. x \<noteq> c) (l @ c # rest) = l \<and>
     dropWhile (\<lambda>x. x \<noteq> c) (l @ c # rest) = c # rest"
  by (induction l) auto

lemma takeWhile_all:
  "c \<notin> set l \<Longrightarrow> takeWhile (\<lambda>x. x \<noteq> c) l = l \<and> dropWhile (\<lambda>x. x \<noteq> c) l = []"
  by (induction l) auto

lemma getline_terminated:
  "CHR 0x0A \<notin> set l \<Longrightarrow> getline (l @ CHR 0x0A # rest) = Some (l, rest)"
  by (simp add: getline_def takeWhile_until)

lemma getline_last:
  "CHR 0x0A \<notin> set l \<Longrightarrow> l \<noteq> [] \<Longrightarrow> getline l = Some (l, [])"
  by (simp add: getline_def takeWhile_all)

lemma getline_empty: "getline [] = None"
  by (simp add: getline_def)

lemma wire_line_parts:
  assumes "CHR ''='' \<notin> set (fst e)"
  shows "line_name (wire_line e) = ''external:results:'' @ fst e"
    and "line_value_s (wire_line e) = snd e"
proof -
  have "takeWhile (\<lambda>c. c \<noteq> CHR ''='') (fst e @ CHR ''='' # snd e) = fst e"
    using assms by (simp add: takeWhile_until)
  then have "find_eq (wire_line e) = Some (length (fst e))"
    by (simp add: find_eq_def wire_line_def)
  then show "line_name (wire_line e) = ''external:results:'' @ fst e"
    and "line_value_s (wire_line e) = snd e"
    by (simp_all add: line_name_def line_value_s_def wire_line_def)
qed

lemma wire_line_no_newline:
  "wire_entry e \<Longrightarrow> CHR 0x0A \<notin> set (wire_line e) \<and> wire_line e \<noteq> []"
  by (simp add: wire_entry_def wire_line_def)

lemma parse_v1_loop_wire:
  assumes "list_all wire_entry entries" and "list_all (\<lambda>e. \<not> isl (stod (snd e))) entries"
  shows "parse_v1_loop stod res (join_lines t (map wire_line entries)) =
     (foldl (\<lambda>m e. options_set m (''external:results:'' @ fst e)
                (option_double (Some (projr (stod (snd e)))))) res entries, None)"
  using assms
proof (induction entries arbitrary: res)
  case Nil
  then show ?case by (simp add: parse_v1_loop.simps getline_empty)
next
  case (Cons e es)
  from Cons.prems have we: "wire_entry e" and ok: "\<not> isl (stod (snd e))"
    and rest: "list_all wire_entry es" "list_all (\<lambda>e. \<not> isl (stod (snd e))) es"
    by simp_all
  from we have eqn: "CHR ''='' \<notin> set (fst e)" by (simp add: wire_entry_def)
  note parts = wire_line_parts [OF eqn]
  from ok obtain d where d: "stod (snd e) = Inr d" by (cases "stod (snd e)") auto
  from wire_line_no_newline [OF we] have nl: "CHR 0x0A \<notin> set (wire_line e)"
    and ne: "wire_line e \<noteq> []" by simp_all
  have gl: "getline (join_lines t (map wire_line (e # es))) =
      Some (wire_line e, join_lines t (map wire_line es))"
  proof (cases es)
    case Nil
    then show ?thesis using getline_terminated [OF nl, of "[]"] getline_last [OF nl ne] by simp
  next
    case (Cons e' es')
    then show ?thesis using getline_terminated [OF nl] by simp
  qed
  have "parse_v1_loop stod res (join_lines t (map wire_line (e # es))) =
      parse_v1_loop stod
        (options_set res (''external:results:'' @ fst e) (option_double (Some d)))
        (join_lines t (map wire_line es))"
    by (subst parse_v1_loop.simps) (simp only: gl option.case prod.case parts d sum.case)
  then show ?case by (simp add: Cons.IH [OF rest] d)
qed

lemma api_version_number_wire:
  "api_version_number (wire_text t entries) = (Inr 1, join_lines t (map wire_line entries))"
proof (cases entries)
  case Nil
  then show ?thesis by (cases t) (simp_all add: wire_text_def api_version_number_def text_eval)
next
  case (Cons e es)
  then show ?thesis by (simp add: wire_text_def api_version_number_def text_eval)
qed

text \<open>
  Claim C2, as amended. The captured stdout is a text of version 1: the line
  \<open>external:api=1\<close> followed by one line \<open><name>=<value>\<close> for each of the entries
  \<open>(name, value)\<close>, in their order, with or without a newline after the last line.
  When \<^verbatim>\<open>std::stod\<close> parses every value, the result set afterwards holds, for each
  name, the entry \<open>external:results:<name>\<close> with the number parsed from the value of
  the last line of that name (a later line of the same name replaces the entry of an
  earlier one); it holds \<open>external:stderr\<close> with the captured stderr, and
  \<open>external:return_code\<close> and \<open>external:error_code\<close> both with the exit code of the
  process; and it holds no other entry, whatever it held before.
\<close>

theorem v1_result_set:
  assumes "list_all wire_entry entries"
    and "list_all (\<lambda>entry. \<not> isl (stod (snd entry))) entries"
    and "proc_stdout r = wire_text terminated entries"
  shows "(\<forall>before name v after.
            entries = before @ (name, v) # after \<and> name \<notin> fst ` set after \<longrightarrow>
            parse_result stod res r (''external:results:'' @ name) =
              Some (option_double (Some (projr (stod v))))) \<and>
         parse_result stod res r ''external:stderr'' = Some (option_charptr (Some (proc_stderr r))) \<and>
         parse_result stod res r ''external:return_code'' = Some (option_int32 (Some (return_code r))) \<and>
         parse_result stod res r ''external:error_code'' = Some (option_int32 (Some (return_code r))) \<and>
         dom (parse_result stod res r) =
           (\<lambda>entry. ''external:results:'' @ fst entry) ` set entries \<union>
           {''external:stderr'', ''external:return_code'', ''external:error_code''}"
proof -
  let ?key = "\<lambda>e :: string \<times> string. ''external:results:'' @ fst e"
  let ?val = "\<lambda>e :: string \<times> string. option_double (Some (projr (stod (snd e))))"
  let ?m = "foldl (\<lambda>m e. options_set m (?key e) (?val e)) Map.empty entries"
  have pr: "parse_result stod res r =
      ?m(''external:stderr'' \<mapsto> option_charptr (Some (proc_stderr r)),
         ''external:return_code'' \<mapsto> option_int32 (Some (return_code r)),
         ''external:error_code'' \<mapsto> option_int32 (Some (return_code r)))"
    by (simp add: parse_result_def assms(3) api_version_number_wire parse_v1_def
        parse_v1_loop_wire [OF assms(1,2)] options_clear_def options_set_def Let_def)
  have look: "?m (''external:results:'' @ name) = Some (option_double (Some (projr (stod v))))"
    if "entries = before @ (name, v) # after" and "name \<notin> fst ` set after"
    for before name v after
  proof -
    from that(2) have "''external:results:'' @ name \<notin> ?key ` set after" by auto
    from foldl_update_last [where key = ?key and val = ?val, OF this, of "(name, v)" Map.empty before]
    show ?thesis by (simp add: that(1))
  qed
  have dm: "dom ?m = ?key ` set entries"
    using foldl_update_dom [where key = ?key and val = ?val and m = Map.empty and ls = entries]
    by simp
  show ?thesis
  proof (intro conjI allI impI)
    fix before name v after
    assume "entries = before @ (name, v) # after \<and> name \<notin> fst ` set after"
    then have "?m (''external:results:'' @ name) = Some (option_double (Some (projr (stod v))))"
      using look [of before name v after] by blast
    then show "parse_result stod res r (''external:results:'' @ name) =
        Some (option_double (Some (projr (stod v))))"
      by (simp add: pr)
  next
    show "dom (parse_result stod res r) =
        ?key ` set entries \<union> {''external:stderr'', ''external:return_code'', ''external:error_code''}"
      unfolding pr using dm by auto
  qed (simp_all add: pr)
qed

text \<open>Three result lines, the first and the last with the same name.\<close>

theorem v1_result_set_witness:
  "wire_text True [(''a'', ''1''), (''b'', ''2.5''), (''a'', ''2'')] =
     ''external:api=1\<newline>a=1\<newline>b=2.5\<newline>a=2\<newline>'' \<and>
   parse_result (stod_table [(''1'', 1), (''2.5'', 5 / 2), (''2'', 2)]) Map.empty
     \<lparr> proc_stdout = ''external:api=1\<newline>a=1\<newline>b=2.5\<newline>a=2\<newline>'', proc_stderr = ''log'',
       return_code = 0, error_code = 0 \<rparr> =
     [''external:results:a'' \<mapsto> option_double (Some (Fin 2)),
      ''external:results:b'' \<mapsto> option_double (Some (Fin (5 / 2))),
      ''external:stderr'' \<mapsto> option_charptr (Some ''log''),
      ''external:return_code'' \<mapsto> option_int32 (Some 0),
      ''external:error_code'' \<mapsto> option_int32 (Some 0)]"
proof -
  let ?stod = "stod_table [(''1'', 1), (''2.5'', 5 / 2), (''2'', 2)]"
  let ?entries = "[(''a'', ''1''), (''b'', ''2.5''), (''a'', ''2'')]"
  let ?r = "\<lparr> proc_stdout = ''external:api=1\<newline>a=1\<newline>b=2.5\<newline>a=2\<newline>'', proc_stderr = ''log'',
       return_code = 0, error_code = 0 \<rparr>"
  have wt: "wire_text True ?entries = ''external:api=1\<newline>a=1\<newline>b=2.5\<newline>a=2\<newline>''"
    by (simp add: wire_text_def wire_line_def)
  have we: "list_all wire_entry ?entries" by (simp add: wire_entry_def)
  have ok: "list_all (\<lambda>entry. \<not> isl (?stod (snd entry))) ?entries" by (simp add: stod_table_def)
  have out: "proc_stdout ?r = wire_text True ?entries" by (simp add: wt)
  note main = v1_result_set [OF we ok out, of Map.empty]
  have la: "parse_result ?stod Map.empty ?r ''external:results:a'' = Some (option_double (Some (Fin 2)))"
    using main [THEN conjunct1, rule_format, of "[(''a'', ''1''), (''b'', ''2.5'')]" "''a''" "''2''" "[]"]
    by (simp add: stod_table_def)
  have lb: "parse_result ?stod Map.empty ?r ''external:results:b'' = Some (option_double (Some (Fin (5 / 2))))"
    using main [THEN conjunct1, rule_format, of "[(''a'', ''1'')]" "''b''" "''2.5''" "[(''a'', ''2'')]"]
    by (simp add: stod_table_def)
  from main [THEN conjunct2]
  have se: "parse_result ?stod Map.empty ?r ''external:stderr'' = Some (option_charptr (Some ''log''))"
    and rc: "parse_result ?stod Map.empty ?r ''external:return_code'' = Some (option_int32 (Some 0))"
    and ec: "parse_result ?stod Map.empty ?r ''external:error_code'' = Some (option_int32 (Some 0))"
    and dm: "dom (parse_result ?stod Map.empty ?r) =
        {''external:results:a'', ''external:results:b'', ''external:stderr'',
         ''external:return_code'', ''external:error_code''}"
    by (simp_all add: insert_commute)
  have "parse_result ?stod Map.empty ?r k =
     [''external:results:a'' \<mapsto> option_double (Some (Fin 2)),
      ''external:results:b'' \<mapsto> option_double (Some (Fin (5 / 2))),
      ''external:stderr'' \<mapsto> option_charptr (Some ''log''),
      ''external:return_code'' \<mapsto> option_int32 (Some 0),
      ''external:error_code'' \<mapsto> option_int32 (Some 0)] k" for k
  proof (cases "k \<in> dom (parse_result ?stod Map.empty ?r)")
    case True
    then show ?thesis unfolding dm using la lb se rc ec by auto
  next
    case False
    then have "parse_result ?stod Map.empty ?r k = None" by auto
    with False show ?thesis unfolding dm by simp
  qed
  then have "parse_result ?stod Map.empty ?r =
     [''external:results:a'' \<mapsto> option_double (Some (Fin 2)),
      ''external:results:b'' \<mapsto> option_double (Some (Fin (5 / 2))),
      ''external:stderr'' \<mapsto> option_charptr (Some ''log''),
      ''external:return_code'' \<mapsto> option_int32 (Some 0),
      ''external:error_code'' \<mapsto> option_int32 (Some 0)]" by (rule ext)
  with wt show ?thesis by simp
qed

text \<open>The claim as stated fails when two result lines share a name: of \<open>a=1\<close> and
  \<open>a=2\<close> only the second leaves its value, so the entry \<open>external:results:a\<close> does not
  hold the number 1 parsed from the line \<open>a=1\<close>.\<close>

theorem v1_result_set_counterexample:
  "parse_result (stod_table [(''1'', 1), (''2'', 2)]) Map.empty
     \<lparr> proc_stdout = ''external:api=1\<newline>a=1\<newline>a=2\<newline>'', proc_stderr = [],
       return_code = 0, error_code = 0 \<rparr>
     ''external:results:a'' = Some (option_double (Some (Fin 2))) \<and>
   stod_table [(''1'', 1), (''2'', 2)] ''1'' = Inr (Fin 1) \<and>
   option_double (Some (Fin 2)) \<noteq> option_double (Some (Fin 1))"
  by (simp add: parse_result_def api_version_number_def text_eval parse_v1_def
      parse_v1_loop.simps options_set_def options_clear_def)

section \<open>The command line of the external program\<close>

lemma foldl_append_dims:
  "foldl (\<lambda>ss i. ss @ '' --dim '' @ put_size i) ss dims =
     ss @ concat (map (\<lambda>i. '' --dim '' @ put_size i) dims)"
  by (induction dims arbitrary: ss) simp_all

text \<open>The extent of a dimension is printed as its decimal digits.\<close>

lemma digit_of_nat:
  assumes "n < 10"
  shows "digit_value (''0123456789'' ! n) = n \<and> isdigit (''0123456789'' ! n)"
proof -
  from assms have "n \<in> {0, 1, 2, 3, 4, 5, 6, 7, 8, 9}" by auto
  then show ?thesis by (auto simp: digit_value_def isdigit_def)
qed

lemma put_size_decimal: "decimal_value (put_size n) = n \<and> list_all isdigit (put_size n)"
proof (induction n rule: put_size.induct)
  case (1 n)
  show ?case
  proof (cases "n < 10")
    case True
    with digit_of_nat [OF True] show ?thesis
      by (simp add: put_size.simps [of n] decimal_value_def)
  next
    case False
    have "n mod 10 < 10" by simp
    from digit_of_nat [OF this] "1.IH" [OF False] False show ?thesis
      by (simp add: put_size.simps [of n] decimal_value_def)
  qed
qed

text \<open>
  Claim C8. The command line is the configured command followed, in this order, by
  \<open>--api 1\<close>, \<open>--input\<close> and the first path, \<open>--decompressed\<close> and the second path,
  \<open>--type\<close> and the name of the dataset's element type, and then one \<open>--dim\<close> with
  the extent in decimal for each dimension of the dataset, in the order of its shape.
  The names of the eleven element types are \<open>float\<close>, \<open>double\<close>, \<open>int8\<close>, \<open>int16\<close>,
  \<open>int32\<close>, \<open>int64\<close>, \<open>uint8\<close>, \<open>uint16\<close>, \<open>uint32\<close>, \<open>uint64\<close> and \<open>byte\<close>, each
  the name of its own type.
\<close>

theorem build_command_line:
  "build_command st input_path decomp_path data =
     command st @ '' --api 1'' @ '' --input '' @ input_path @
     '' --decompressed '' @ decomp_path @ '' --type '' @ dtype_name (dtype data) @
     concat (map (\<lambda>extent. '' --dim '' @ put_size extent) (dimensions data)) \<and>
   map dtype_name
     [pressio_float_dtype, pressio_double_dtype, pressio_int8_dtype, pressio_int16_dtype,
      pressio_int32_dtype, pressio_int64_dtype, pressio_uint8_dtype, pressio_uint16_dtype,
      pressio_uint32_dtype, pressio_uint64_dtype, pressio_byte_dtype] =
     [''float'', ''double'', ''int8'', ''int16'', ''int32'', ''int64'',
      ''uint8'', ''uint16'', ''uint32'', ''uint64'', ''byte'']"
  unfolding build_command_def Let_def foldl_append_dims by simp

text \<open>A dataset of 500 by 100 values of type \<^verbatim>\<open>uint16_t\<close>.\<close>

theorem build_command_line_witness:
  "build_command (external_new\<lparr> command := ''./metric'' \<rparr>) ''.pressioinAB12cd'' ''.pressiooutEF34gh''
     \<lparr> dtype = pressio_uint16_dtype, dimensions = [500, 100] \<rparr> =
   ''./metric --api 1 --input .pressioinAB12cd --decompressed .pressiooutEF34gh --type uint16 --dim 500 --dim 100''"
  using build_command_line [of "external_new\<lparr> command := ''./metric'' \<rparr>"
      "''.pressioinAB12cd''" "''.pressiooutEF34gh''"
      "\<lparr> dtype = pressio_uint16_dtype, dimensions = [500, 100] \<rparr>"]
  by (simp add: put_size.simps external_new_def Let_def)

section \<open>A format whose plugin cannot be built\<close>

text \<open>Whatever was bound before: when the options set a format for which \<open>get_io\<close>
  returns the null pointer, \<^verbatim>\<open>set_metrics_options\<close> ends in the dereference of a null
  \<^verbatim>\<open>io_module\<close>.\<close>

lemma failed_backend_is_dereferenced:
  assumes "opt ''external:io_format'' = Some (option_charptr (Some fmt))"
    and "get_io fmt = None"
  shows "\<exists>st'. set_metrics_options get_io io_set_options opt st = Null_dereference st' \<and>
           io_module st' = None \<and> io_format st' = fmt"
  using assms by (simp add: set_metrics_options_def options_get_string_def Let_def)

text \<open>
  Claim C9. The claim says that when no plugin can be built for a newly supplied format,
  the plugin bound before stays in place. A runner bound to the posix plugin is
  configured with the format \<open>no_such_format\<close>, for which \<open>get_io\<close> returns the null
  pointer: line 301 assigns that null pointer to \<^verbatim>\<open>io_module\<close>, so the posix plugin is
  gone, and line 303 dereferences it, so the function does not return at all.
\<close>

theorem failed_backend_replaces_prior:
  "set_metrics_options (\<lambda>name. if name = ''posix'' then Some ''posix plugin'' else None)
     (\<lambda>opt io. io)
     [''external:io_format'' \<mapsto> option_charptr (Some ''no_such_format'')]
     (external_new\<lparr> io_module := Some ''posix plugin'' \<rparr>) =
   Null_dereference (external_new\<lparr> io_format := ''no_such_format'', io_module := None \<rparr>)"
  by (simp add: set_metrics_options_def options_get_string_def external_new_def Let_def)

end
